theory Spec2Isabelle
  imports Complex_Main "HOL-Library.AList"
begin

section \<open>phoebe.server: session broker, port pool, session store, worker loop\<close>

text \<open>
  A shallow embedding of the Python package \<^verbatim>\<open>phoebe_server\<close>:
  \<^verbatim>\<open>manager/session_manager.py\<close> (port pool, registry, worker supervision),
  \<^verbatim>\<open>database.py\<close> (the SQLite session store), \<^verbatim>\<open>api/session.py\<close> and
  \<^verbatim>\<open>api/command.py\<close> (HTTP handlers) and \<^verbatim>\<open>worker/phoebe_worker.py\<close> (the
  worker's command loop).

  Module-level globals become fields of one \<open>state\<close> record that every operation takes and
  returns. A Python exception is a value \<open>Inl e\<close> of the result; a function that can raise
  has type \<open>state \<Rightarrow> (py_error + 'a) \<times> state\<close>. What the operating system, the clock, the
  SQLite file and the worker processes answer is read from oracle fields of the state, so
  that every theorem holds for all their answers.
\<close>

subsection \<open>JSON values and exceptions\<close>

datatype json =
    JNull
  | JBool bool
  | JInt int
  | JFloat real
  | JStr string
  | JArr "json list"
  | JObj "(string \<times> json) list"

type_synonym session_id = string
type_synonym port = int
type_synonym pid = nat

text \<open>
  The exceptions the modelled code raises or receives. Each constructor stands for one
  exception class together with the message the source gives it:
  \<^item> \<open>NoAvailablePorts\<close>: \<^verbatim>\<open>RuntimeError("No available ports in pool")\<close>;
  \<^item> \<open>WorkerFailedToStart p\<close>:
    \<^verbatim>\<open>RuntimeError(f"Worker failed to start within timeout on port {port}")\<close>;
  \<^item> \<open>DatabaseNotInitialized\<close>:
    \<^verbatim>\<open>RuntimeError("Database not initialized. Call init_database() first.")\<close>;
  \<^item> \<open>SqliteError\<close>: any \<^verbatim>\<open>sqlite3.Error\<close> out of connect, execute or commit;
  \<^item> \<open>NoSuchProcess\<close>, \<open>TimeoutExpired\<close>: the two \<^verbatim>\<open>psutil\<close> exceptions;
  \<^item> \<open>SpawnError\<close>: an \<^verbatim>\<open>OSError\<close> out of \<^verbatim>\<open>psutil.Popen\<close>;
  \<^item> \<open>HTTPException code detail\<close>: FastAPI's exception;
  \<^item> \<open>KeyError k\<close>, \<open>ValueError v\<close>, \<open>TypeError v\<close>: raised in the worker loop;
  \<^item> \<open>IndexError\<close>: a list index out of range.
\<close>

datatype py_error =
    NoAvailablePorts
  | WorkerFailedToStart port
  | DatabaseNotInitialized
  | SqliteError
  | NoSuchProcess pid
  | TimeoutExpired pid
  | SpawnError
  | HTTPException nat string
  | KeyError string
  | ValueError json
  | TypeError json
  | IndexError

subsection \<open>Python string helpers\<close>

text \<open>
  A \<open>char\<close> is read as a code point below 256. \<open>is_space\<close> is \<^verbatim>\<open>str.isspace\<close> on that
  range: TAB, LF, VT, FF, CR, the separators 28 to 31, SPACE, NEL (133) and NBSP (160).
\<close>

definition is_space :: "char \<Rightarrow> bool" where
  "is_space c = ((of_char c :: nat) \<in> {9, 10, 11, 12, 13, 28, 29, 30, 31, 32, 133, 160})"

text \<open>\<^verbatim>\<open>s.strip()\<close>\<close>

definition strip :: "string \<Rightarrow> string" where
  "strip s = rev (dropWhile is_space (rev (dropWhile is_space s)))"

text \<open>\<^verbatim>\<open>s.split(sep)\<close> for a one-character separator; \<^verbatim>\<open>"".split(",") == [""]\<close>.\<close>

fun py_split :: "char \<Rightarrow> string \<Rightarrow> string list" where
  "py_split sep [] = [[]]"
| "py_split sep (c # cs) =
     (if c = sep then [] # py_split sep cs
      else (case py_split sep cs of
              [] \<Rightarrow> [[c]]
            | w # ws \<Rightarrow> (c # w) # ws))"

subsection \<open>Configuration\<close>

text \<open>
  \<^verbatim>\<open>config.py\<close> is not part of the sources at hand; the options the code reads are the
  fields of this record (\<^verbatim>\<open>config.port_pool.start\<close>, \<^verbatim>\<open>config.port_pool.end\<close>,
  \<^verbatim>\<open>config.database.log_exclude_commands\<close>, \<^verbatim>\<open>config.database.log_include_commands\<close>).
\<close>

record config =
  port_pool_start :: int
  port_pool_end :: int
  log_exclude_commands :: string
  log_include_commands :: string

subsection \<open>Registry entries\<close>

text \<open>
  The dictionary stored under a session id by \<^verbatim>\<open>launch_phoebe_worker\<close>. The snapshot
  returned to callers is the entry without its \<^verbatim>\<open>'process'\<close> key, so the entry is the
  snapshot extended by the process handle. \<open>user_email = None\<close> stands for the key being
  absent.
\<close>

record session_info =
  session_id :: session_id
  created_at :: real
  last_activity :: real
  mem_used :: real
  port :: port
  user_first_name :: "string option"
  user_last_name :: "string option"
  user_display_name :: string
  user_email :: "string option"

record session_entry = session_info +
  process :: "pid option"

subsection \<open>The session store (SQLite tables)\<close>

record session_row =
  s_session_id :: session_id
  s_created_at :: real
  s_destroyed_at :: "real option"
  s_last_activity :: real
  s_port :: port
  s_client_ip :: "string option"
  s_user_agent :: "string option"
  s_termination_reason :: "string option"
  s_status :: string

record metric_row =
  m_id :: nat
  m_session_id :: session_id
  m_timestamp :: real
  m_memory_used_mb :: real

record command_row =
  c_id :: nat
  c_session_id :: session_id
  c_timestamp :: real
  c_command_name :: string
  c_success :: int
  c_execution_time_ms :: "real option"
  c_error_message :: "string option"

record user_info_row =
  u_session_id :: session_id
  u_first_name :: string
  u_last_name :: string
  u_email :: string
  u_updated_at :: real

record database =
  sessions :: "session_row list"
  session_metrics :: "metric_row list"
  session_commands :: "command_row list"
  session_user_info :: "user_info_row list"

subsection \<open>Worker processes, RPC envelopes, effects\<close>

text \<open>
  What the operating system knows of a worker process: whether it runs, whether it exits
  within the grace period once asked to terminate, and its resident set size in bytes.
\<close>

record os_proc =
  alive :: bool
  graceful :: bool
  rss :: nat

text \<open>
  The reply envelope of the worker protocol,
  \<^verbatim>\<open>{'success': ..., 'result': ...}\<close> or \<^verbatim>\<open>{'success': False, 'error': ..., 'traceback': ...}\<close>;
  an absent key is \<open>None\<close>.
\<close>

record reply =
  success :: bool
  result :: "json option"
  error :: "string option"
  traceback :: "string option"

text \<open>
  The body of a \<^verbatim>\<open>/send\<close> request as the broker reads it: the value under \<^verbatim>\<open>'command'\<close>
  (a command name, when the key is there) and the remaining named arguments.
\<close>

record envelope =
  command :: "string option"
  kwargs :: "(string \<times> json) list"

text \<open>
  The effects of the end protocol, in the order in which they happen: signals sent to a
  worker, a port handed back, the \<^verbatim>\<open>destroyed\<close> write to the store, the deletion of the
  registry entry.
\<close>

datatype event =
    EvTerminate pid
  | EvKill pid
  | EvReleasePort port
  | EvLogDestroyed session_id string
  | EvRemoveEntry session_id

subsection \<open>The state\<close>

text \<open>
  \<open>server_registry\<close>, \<open>available_ports\<close> and \<open>reserved_ports\<close> are the module globals of
  \<^verbatim>\<open>session_manager.py\<close>; the registry is a list of pairs with unique keys in insertion
  order, as a Python \<^verbatim>\<open>dict\<close> is. \<open>db_initialised\<close> says that \<^verbatim>\<open>_db_path\<close> is set.
  \<open>error_log\<close> collects the \<^verbatim>\<open>logger.error\<close> records (message prefix and exception);
  records of lower levels are not modelled.

  Oracles: \<open>clock\<close> gives the value of the \<open>n\<close>-th call of \<^verbatim>\<open>time.time()\<close>, \<open>db_ok\<close> says
  whether the \<open>n\<close>-th transaction on the store goes through, \<open>rpc_reply\<close> is the worker's
  answer to the \<open>n\<close>-th \<^verbatim>\<open>send_command\<close>; \<open>ticks\<close>, \<open>db_ops\<close> and \<open>rpc_log\<close> count and
  record the calls made so far.
\<close>

record state =
  cfg :: config
  server_registry :: "(session_id \<times> session_entry) list"
  available_ports :: "port list"
  reserved_ports :: "port set"
  db_initialised :: bool
  db :: database
  error_log :: "(string \<times> py_error) list"
  os_procs :: "pid \<Rightarrow> os_proc"
  clock :: "nat \<Rightarrow> real"
  ticks :: nat
  db_ok :: "nat \<Rightarrow> bool"
  db_ops :: nat
  rpc_reply :: "nat \<Rightarrow> reply"
  rpc_log :: "(port \<times> envelope) list"
  trace :: "event list"

type_synonym 'a prog = "state \<Rightarrow> (py_error + 'a) \<times> state"

definition ret :: "'a \<Rightarrow> 'a prog" where
  "ret x s = (Inr x, s)"

definition raise :: "py_error \<Rightarrow> 'a prog" where
  "raise e s = (Inl e, s)"

text \<open>Sequencing: an exception of the first part ends the whole, in the state reached.\<close>

definition bind :: "'a prog \<Rightarrow> ('a \<Rightarrow> 'b prog) \<Rightarrow> 'b prog" where
  "bind m f s = (case m s of (Inl e, s') \<Rightarrow> (Inl e, s') | (Inr x, s') \<Rightarrow> f x s')"

definition emit :: "event \<Rightarrow> state \<Rightarrow> state" where
  "emit e s = s\<lparr>trace := trace s @ [e]\<rparr>"

definition log_error :: "string \<Rightarrow> py_error \<Rightarrow> state \<Rightarrow> state" where
  "log_error msg e s = s\<lparr>error_log := error_log s @ [(msg, e)]\<rparr>"

text \<open>\<^verbatim>\<open>time.time()\<close>\<close>

definition time_time :: "real prog" where
  "time_time s = (Inr (clock s (ticks s)), s\<lparr>ticks := Suc (ticks s)\<rparr>)"

subsection \<open>Port pool (\<^verbatim>\<open>session_manager.py\<close>)\<close>

text \<open>
  \<^verbatim>\<open>load_port_config\<close>: \<^verbatim>\<open>available_ports = list(range(start, end))\<close>. The sweep of orphaned
  worker processes that precedes it touches no field of the state and is left out.
  \<^verbatim>\<open>reserved_ports\<close> is not reset.
\<close>

definition load_port_config :: "state \<Rightarrow> state" where
  "load_port_config s =
     s\<lparr>available_ports := [port_pool_start (cfg s) ..  port_pool_end (cfg s) - 1]\<rparr>"

definition request_port :: "port prog" where
  "request_port s =
     (case available_ports s of
        [] \<Rightarrow> (Inl NoAvailablePorts, s)
      | p # rest \<Rightarrow>
          (Inr p, s\<lparr>available_ports := rest, reserved_ports := insert p (reserved_ports s)\<rparr>))"

definition release_port :: "port \<Rightarrow> state \<Rightarrow> state" where
  "release_port p s =
     (if p \<in> reserved_ports s
      then s\<lparr>reserved_ports := reserved_ports s - {p},
             available_ports := available_ports s @ [p]\<rparr>
      else s)"

text \<open>
  \<^verbatim>\<open>get_port_status\<close>. The keys \<^verbatim>\<open>'reserved_ports'\<close> and \<^verbatim>\<open>'available_ports'\<close> of the
  result are the fields \<open>reserved_count\<close> and \<open>available_count\<close> here (the two names are
  taken by the globals); \<open>port_range\<close> holds the two numbers that the source joins with a
  dash into one string.
\<close>

record port_status =
  total_ports :: int
  reserved_count :: int
  available_count :: int
  reserved_port_list :: "port list"
  port_range :: "int \<times> int"

definition get_port_status :: "state \<Rightarrow> port_status" where
  "get_port_status s =
     \<lparr>total_ports = int (length (available_ports s)) + int (card (reserved_ports s)),
      reserved_count = int (card (reserved_ports s)),
      available_count = int (length (available_ports s)),
      reserved_port_list = sorted_list_of_set (reserved_ports s),
      port_range = (port_pool_start (cfg s), port_pool_end (cfg s) - 1)\<rparr>"

text \<open>A call of one of the two pool operations, and a sequence of such calls.\<close>

datatype pool_op = Request | Release port

fun pool_step :: "pool_op \<Rightarrow> state \<Rightarrow> state" where
  "pool_step Request s = snd (request_port s)"
| "pool_step (Release p) s = release_port p s"

fun pool_run :: "pool_op list \<Rightarrow> state \<Rightarrow> state" where
  "pool_run [] s = s"
| "pool_run (x # xs) s = pool_run xs (pool_step x s)"

subsection \<open>Session store operations (\<^verbatim>\<open>database.py\<close>)\<close>

text \<open>
  \<^verbatim>\<open>with get_db() as db: db.execute(stmt); db.commit()\<close>. \<^verbatim>\<open>get_db\<close> raises when the
  database path is not set; the connection, the statement or the commit can fail, and then
  nothing is written; the statement itself can be refused (a constraint).
\<close>

definition transaction :: "(database \<Rightarrow> py_error + database) \<Rightarrow> unit prog" where
  "transaction stmt s =
     (if \<not> db_initialised s then (Inl DatabaseNotInitialized, s)
      else let s1 = s\<lparr>db_ops := Suc (db_ops s)\<rparr> in
        if \<not> db_ok s (db_ops s) then (Inl SqliteError, s1)
        else (case stmt (db s) of
                Inl e \<Rightarrow> (Inl e, s1)
              | Inr d \<Rightarrow> (Inr (), s1\<lparr>db := d\<rparr>)))"

text \<open>
  \<^verbatim>\<open>try: body  except Exception as e: logger.error(f"{msg}: {e}")\<close>: the shape of every
  \<^verbatim>\<open>log_*\<close> function.
\<close>

definition try_except_log :: "string \<Rightarrow> unit prog \<Rightarrow> unit prog" where
  "try_except_log msg body s =
     (case body s of
        (Inl e, s') \<Rightarrow> (Inr (), log_error msg e s')
      | (Inr x, s') \<Rightarrow> (Inr x, s'))"

text \<open>The SQL statements. \<^verbatim>\<open>session_id\<close> is the primary key of \<^verbatim>\<open>sessions\<close>.\<close>

definition insert_session :: "session_row \<Rightarrow> database \<Rightarrow> py_error + database" where
  "insert_session r d =
     (if s_session_id r \<in> set (map s_session_id (sessions d)) then Inl SqliteError
      else Inr (d\<lparr>sessions := sessions d @ [r]\<rparr>))"

definition update_sessions ::
  "session_id \<Rightarrow> (session_row \<Rightarrow> session_row) \<Rightarrow> database \<Rightarrow> py_error + database" where
  "update_sessions sid f d =
     Inr (d\<lparr>sessions := map (\<lambda>r. if s_session_id r = sid then f r else r) (sessions d)\<rparr>)"

definition insert_metric ::
  "session_id \<Rightarrow> real \<Rightarrow> real \<Rightarrow> database \<Rightarrow> py_error + database" where
  "insert_metric sid ts mem d =
     Inr (d\<lparr>session_metrics := session_metrics d @
            [\<lparr>m_id = Suc (length (session_metrics d)), m_session_id = sid,
              m_timestamp = ts, m_memory_used_mb = mem\<rparr>]\<rparr>)"

definition insert_command ::
  "session_id \<Rightarrow> real \<Rightarrow> string \<Rightarrow> int \<Rightarrow> real option \<Rightarrow> string option \<Rightarrow>
     database \<Rightarrow> py_error + database" where
  "insert_command sid ts name succ ms err d =
     Inr (d\<lparr>session_commands := session_commands d @
            [\<lparr>c_id = Suc (length (session_commands d)), c_session_id = sid,
              c_timestamp = ts, c_command_name = name, c_success = succ,
              c_execution_time_ms = ms, c_error_message = err\<rparr>]\<rparr>)"

definition replace_user_info :: "user_info_row \<Rightarrow> database \<Rightarrow> py_error + database" where
  "replace_user_info r d =
     Inr (d\<lparr>session_user_info :=
            filter (\<lambda>x. u_session_id x \<noteq> u_session_id r) (session_user_info d) @ [r]\<rparr>)"

text \<open>The list comprehension of \<^verbatim>\<open>should_log_command\<close>:
  \<^verbatim>\<open>[c.strip() for c in text.split(",") if c.strip()]\<close>.\<close>

definition command_list :: "string \<Rightarrow> string list" where
  "command_list text = filter (\<lambda>c. c \<noteq> []) (map strip (py_split CHR '','' text))"

definition should_log_command :: "config \<Rightarrow> string \<Rightarrow> bool" where
  "should_log_command c command_name =
     (let exclude = command_list (log_exclude_commands c);
          include = command_list (log_include_commands c)
      in if include \<noteq> [] then command_name \<in> set include
         else command_name \<notin> set exclude)"

definition log_session_created ::
  "session_id \<Rightarrow> real \<Rightarrow> port \<Rightarrow> string option \<Rightarrow> string option \<Rightarrow> unit prog" where
  "log_session_created sid created port_no ip agent =
     try_except_log ''Failed to log session creation''
       (transaction (insert_session
          \<lparr>s_session_id = sid, s_created_at = created, s_destroyed_at = None,
           s_last_activity = created, s_port = port_no, s_client_ip = ip,
           s_user_agent = agent, s_termination_reason = None, s_status = ''active''\<rparr>))"

definition log_session_destroyed :: "session_id \<Rightarrow> real \<Rightarrow> string \<Rightarrow> unit prog" where
  "log_session_destroyed sid destroyed reason =
     try_except_log ''Failed to log session destruction''
       (transaction (update_sessions sid
          (\<lambda>r. r\<lparr>s_destroyed_at := Some destroyed, s_termination_reason := Some reason,
                 s_status := ''terminated''\<rparr>)))"

definition log_session_activity :: "session_id \<Rightarrow> real \<Rightarrow> unit prog" where
  "log_session_activity sid t =
     try_except_log ''Failed to log session activity''
       (transaction (update_sessions sid (\<lambda>r. r\<lparr>s_last_activity := t\<rparr>)))"

definition log_session_metric :: "session_id \<Rightarrow> real \<Rightarrow> real \<Rightarrow> unit prog" where
  "log_session_metric sid ts memory_used_mb =
     try_except_log ''Failed to log session metric''
       (transaction (insert_metric sid ts memory_used_mb))"

definition log_command_execution ::
  "session_id \<Rightarrow> real \<Rightarrow> string \<Rightarrow> bool \<Rightarrow> real option \<Rightarrow> string option \<Rightarrow> unit prog" where
  "log_command_execution sid ts command_name succ execution_time_ms error_message s =
     (if \<not> should_log_command (cfg s) command_name then (Inr (), s)
      else try_except_log ''Failed to log command execution''
             (transaction (insert_command sid ts command_name (if succ then 1 else 0)
                execution_time_ms error_message)) s)"

definition log_user_info_update ::
  "session_id \<Rightarrow> string \<Rightarrow> string \<Rightarrow> string \<Rightarrow> real \<Rightarrow> unit prog" where
  "log_user_info_update sid first_name last_name email updated =
     try_except_log ''Failed to log user info update''
       (transaction (replace_user_info
          \<lparr>u_session_id = sid, u_first_name = first_name, u_last_name = last_name,
           u_email = email, u_updated_at = updated\<rparr>))"

subsection \<open>Exceptions and loops\<close>

text \<open>\<^verbatim>\<open>try: body  except ...: handler\<close>; a handler re-raises what its clause does not name.\<close>

definition catch :: "'a prog \<Rightarrow> (py_error \<Rightarrow> 'a prog) \<Rightarrow> 'a prog" where
  "catch body handler s =
     (case body s of
        (Inl e, s') \<Rightarrow> handler e s'
      | (Inr x, s') \<Rightarrow> (Inr x, s'))"

definition effect :: "(state \<Rightarrow> state) \<Rightarrow> unit prog" where
  "effect f s = (Inr (), f s)"

text \<open>\<^verbatim>\<open>for x in xs: body(x)\<close>\<close>

fun for_each :: "'a list \<Rightarrow> ('a \<Rightarrow> 'b prog) \<Rightarrow> unit prog" where
  "for_each [] body = ret ()"
| "for_each (x # xs) body = bind (body x) (\<lambda>_. for_each xs body)"

subsection \<open>Worker supervision (\<^verbatim>\<open>psutil\<close> process handles)\<close>

definition set_alive :: "pid \<Rightarrow> bool \<Rightarrow> state \<Rightarrow> state" where
  "set_alive h b s = s\<lparr>os_procs := (os_procs s)(h := (os_procs s h)\<lparr>alive := b\<rparr>)\<rparr>"

text \<open>\<^verbatim>\<open>proc.is_running()\<close>\<close>

definition proc_is_running :: "pid \<Rightarrow> state \<Rightarrow> bool" where
  "proc_is_running h s = alive (os_procs s h)"

text \<open>\<^verbatim>\<open>proc.terminate()\<close>: a process that exits gracefully is gone by the time the
  caller waits for it.\<close>

definition proc_terminate :: "pid \<Rightarrow> unit prog" where
  "proc_terminate h s =
     (if alive (os_procs s h)
      then (Inr (), emit (EvTerminate h) (set_alive h (\<not> graceful (os_procs s h)) s))
      else (Inl (NoSuchProcess h), s))"

text \<open>\<^verbatim>\<open>proc.wait(timeout=3)\<close>\<close>

definition proc_wait_timeout :: "pid \<Rightarrow> unit prog" where
  "proc_wait_timeout h s =
     (if alive (os_procs s h) then (Inl (TimeoutExpired h), s) else (Inr (), s))"

text \<open>\<^verbatim>\<open>proc.kill()\<close>\<close>

definition proc_kill :: "pid \<Rightarrow> unit prog" where
  "proc_kill h s =
     (if alive (os_procs s h)
      then (Inr (), emit (EvKill h) (set_alive h False s))
      else (Inl (NoSuchProcess h), s))"

text \<open>\<^verbatim>\<open>proc.wait()\<close>, called on a process that has just been killed.\<close>

definition proc_wait :: "pid \<Rightarrow> unit prog" where
  "proc_wait h = ret ()"

text \<open>\<^verbatim>\<open>proc.memory_info().rss\<close>\<close>

definition proc_memory_info :: "pid \<Rightarrow> nat prog" where
  "proc_memory_info h s =
     (if alive (os_procs s h) then (Inr (rss (os_procs s h)), s)
      else (Inl (NoSuchProcess h), s))"

subsection \<open>Session registry (\<^verbatim>\<open>session_manager.py\<close>)\<close>

text \<open>\<^verbatim>\<open>server_registry[sid] = entry\<close> and \<^verbatim>\<open>del server_registry[sid]\<close>\<close>

definition registry_set :: "session_id \<Rightarrow> session_entry \<Rightarrow> state \<Rightarrow> state" where
  "registry_set sid entry s = s\<lparr>server_registry := AList.update sid entry (server_registry s)\<rparr>"

definition registry_del :: "session_id \<Rightarrow> state \<Rightarrow> state" where
  "registry_del sid s = s\<lparr>server_registry := AList.delete sid (server_registry s)\<rparr>"

definition get_server_info :: "session_id \<Rightarrow> state \<Rightarrow> session_info option" where
  "get_server_info sid s =
     (case map_of (server_registry s) sid of
        None \<Rightarrow> None
      | Some info \<Rightarrow> Some (session_info.truncate info))"

text \<open>
  \<^verbatim>\<open>launch_phoebe_worker\<close>. Three answers of the environment are arguments: the fresh
  \<^verbatim>\<open>uuid4\<close> string, what \<^verbatim>\<open>psutil.Popen\<close> does (raise, or hand out a process), and the
  verdict of the readiness probe \<^verbatim>\<open>_wait_for_worker_ready(port)\<close>. \<open>launch_body\<close> is the
  \<^verbatim>\<open>try\<close> block.
\<close>

definition launch_body ::
  "session_id \<Rightarrow> port \<Rightarrow> real \<Rightarrow> (py_error + pid) \<Rightarrow> bool \<Rightarrow>
     string option \<Rightarrow> string option \<Rightarrow> session_info prog" where
  "launch_body sid port_no current_time popen ready client_ip user_agent =
     (case popen of
        Inl e \<Rightarrow> raise e
      | Inr proc \<Rightarrow>
          if \<not> ready then
            bind (proc_terminate proc) (\<lambda>_.
            bind (catch (proc_wait_timeout proc)
                    (\<lambda>e. case e of TimeoutExpired _ \<Rightarrow> proc_kill proc | _ \<Rightarrow> raise e)) (\<lambda>_.
            bind (effect (release_port port_no)) (\<lambda>_.
            raise (WorkerFailedToStart port_no))))
          else
            bind (effect (registry_set sid
                    \<lparr>session_id = sid, created_at = current_time,
                     last_activity = current_time, mem_used = 0, port = port_no,
                     user_first_name = None, user_last_name = None,
                     user_display_name = ''Not logged in'', user_email = None,
                     process = Some proc\<rparr>)) (\<lambda>_.
            bind (log_session_created sid current_time port_no client_ip user_agent) (\<lambda>_.
            (\<lambda>s. case map_of (server_registry s) sid of
                    None \<Rightarrow> raise (KeyError sid) s
                  | Some info \<Rightarrow> ret (session_info.truncate info) s))))"

definition launch_phoebe_worker ::
  "session_id \<Rightarrow> (py_error + pid) \<Rightarrow> bool \<Rightarrow> string option \<Rightarrow> string option \<Rightarrow>
     session_info prog" where
  "launch_phoebe_worker uuid popen ready client_ip user_agent =
     bind request_port (\<lambda>port_no.
     bind time_time (\<lambda>current_time.
     catch (launch_body uuid port_no current_time popen ready client_ip user_agent)
       (\<lambda>e. bind (effect (release_port port_no)) (\<lambda>_.
             bind (effect (log_error ''Failed to launch worker'' e)) (\<lambda>_.
             raise e)))))"

definition update_last_activity :: "session_id \<Rightarrow> unit prog" where
  "update_last_activity sid s =
     (case map_of (server_registry s) sid of
        None \<Rightarrow> ret () s
      | Some info \<Rightarrow>
          bind time_time (\<lambda>current_time.
          bind (effect (registry_set sid (info\<lparr>last_activity := current_time\<rparr>))) (\<lambda>_.
          log_session_activity sid current_time)) s)"

definition get_current_memory_usage :: "session_id \<Rightarrow> real option prog" where
  "get_current_memory_usage sid s =
     (case map_of (server_registry s) sid of
        None \<Rightarrow> ret None s
      | Some info \<Rightarrow>
          (case process info of
             None \<Rightarrow> ret None s
           | Some proc \<Rightarrow>
               catch
                 (bind (proc_memory_info proc) (\<lambda>bytes.
                  let mem = real bytes / (1024 * 1024) in
                  bind (\<lambda>s1. case map_of (server_registry s1) sid of
                               None \<Rightarrow> raise (KeyError sid) s1
                             | Some cur \<Rightarrow> effect (registry_set sid (cur\<lparr>mem_used := mem\<rparr>)) s1) (\<lambda>_.
                  bind time_time (\<lambda>current_time.
                  bind (update_last_activity sid) (\<lambda>_.
                  bind (log_session_metric sid current_time mem) (\<lambda>_.
                  ret (Some mem)))))))
                 (\<lambda>e. case e of NoSuchProcess _ \<Rightarrow> ret None | _ \<Rightarrow> raise e) s))"

text \<open>
  \<^verbatim>\<open>shutdown_server(session_id, termination_reason="manual")\<close>, statement by statement:
  terminate the process, free the port (\<^verbatim>\<open>if port:\<close> skips port 0), write the
  \<^verbatim>\<open>destroyed\<close> record, delete the registry entry.
\<close>

definition default_termination_reason :: string where
  "default_termination_reason = ''manual''"

definition terminate_process :: "pid \<Rightarrow> unit prog" where
  "terminate_process proc =
     catch
       (\<lambda>s. if proc_is_running proc s then
               bind (proc_terminate proc) (\<lambda>_.
               catch (proc_wait_timeout proc)
                 (\<lambda>e. case e of
                         TimeoutExpired _ \<Rightarrow> bind (proc_kill proc) (\<lambda>_. proc_wait proc)
                       | _ \<Rightarrow> raise e)) s
             else ret () s)
       (\<lambda>e. case e of NoSuchProcess _ \<Rightarrow> ret () | _ \<Rightarrow> raise e)"

definition shutdown_server :: "session_id \<Rightarrow> string \<Rightarrow> bool prog" where
  "shutdown_server sid termination_reason s =
     (case map_of (server_registry s) sid of
        None \<Rightarrow> ret False s
      | Some info \<Rightarrow>
          bind (case process info of None \<Rightarrow> ret () | Some proc \<Rightarrow> terminate_process proc) (\<lambda>_.
          bind (if port info \<noteq> 0
                then effect (\<lambda>s1. emit (EvReleasePort (port info)) (release_port (port info) s1))
                else ret ()) (\<lambda>_.
          bind time_time (\<lambda>destroyed.
          bind (log_session_destroyed sid destroyed termination_reason) (\<lambda>_.
          bind (effect (emit (EvLogDestroyed sid termination_reason))) (\<lambda>_.
          bind (effect (\<lambda>s1. emit (EvRemoveEntry sid) (registry_del sid s1))) (\<lambda>_.
          ret True)))))) s)"

text \<open>\<^verbatim>\<open>list_sessions\<close>: the sweep calls \<^verbatim>\<open>shutdown_server(session_id)\<close> with one argument.\<close>

definition dead_sessions :: "state \<Rightarrow> session_id list" where
  "dead_sessions s =
     map fst (filter (\<lambda>(sid, info). case process info of
                                       None \<Rightarrow> False
                                     | Some proc \<Rightarrow> \<not> proc_is_running proc s)
                (server_registry s))"

definition list_sessions :: "(session_id \<times> session_info option) list prog" where
  "list_sessions s =
     bind (for_each (dead_sessions s) (\<lambda>sid. shutdown_server sid default_termination_reason))
       (\<lambda>_ s1. ret (map (\<lambda>sid. (sid, get_server_info sid s1)) (map fst (server_registry s1))) s1) s"

subsection \<open>HTTP handlers (\<^verbatim>\<open>api/command.py\<close>, \<^verbatim>\<open>api/session.py\<close>)\<close>

text \<open>
  Modelled from the spec: \<^verbatim>\<open>worker/proxy.py\<close> (\<^verbatim>\<open>send_command\<close>) is not among the sources.
  The proxy sends the envelope to the worker on the given port and returns the reply;
  timeouts and transport errors come back as a reply with \<open>success = False\<close>, so the call
  does not raise.
\<close>

definition send_command :: "port \<Rightarrow> envelope \<Rightarrow> reply prog" where
  "send_command port_no c s =
     (Inr (rpc_reply s (length (rpc_log s))), s\<lparr>rpc_log := rpc_log s @ [(port_no, c)]\<rparr>)"

definition send :: "session_id \<Rightarrow> envelope \<Rightarrow> reply prog" where
  "send sid c s =
     (case get_server_info sid s of
        None \<Rightarrow> raise (HTTPException 404 ''Invalid session ID'') s
      | Some info \<Rightarrow>
          bind (update_last_activity sid) (\<lambda>_.
          let port_no = port info;
              command_name = (case command c of None \<Rightarrow> ''unknown'' | Some n \<Rightarrow> n) in
          bind time_time (\<lambda>start_time.
          bind (send_command port_no c) (\<lambda>response.
          bind time_time (\<lambda>end_time.
          let execution_time_ms = (end_time - start_time) * 1000;
              succ = success response;
              error_message = (if \<not> succ then error response else None) in
          bind time_time (\<lambda>ts.
          bind (log_command_execution sid ts command_name succ
                  (Some execution_time_ms) error_message) (\<lambda>_.
          bind (get_current_memory_usage sid) (\<lambda>_.
          ret response))))))) s)"

text \<open>
  A request as \<^verbatim>\<open>get_client_ip\<close> reads it: \<open>headers r name\<close> is
  \<^verbatim>\<open>request.headers.get(name, None)\<close>, \<open>client r\<close> is \<^verbatim>\<open>request.client\<close> (host and port of
  the peer, or \<^verbatim>\<open>None\<close>).
\<close>

record request =
  headers :: "string \<Rightarrow> string option"
  client :: "(string \<times> int) option"

definition get_client_ip :: "request \<Rightarrow> py_error + string" where
  "get_client_ip r =
     (case headers r ''X-Forwarded-For'' of
        Some forwarded_for \<Rightarrow>
          (case py_split CHR '','' forwarded_for of
             [] \<Rightarrow> Inl IndexError
           | first # _ \<Rightarrow> Inr (strip first))
      | None \<Rightarrow>
          (case client r of
             Some peer \<Rightarrow> Inr (fst peer)
           | None \<Rightarrow> Inr ''unknown''))"

subsection \<open>Worker command loop (\<^verbatim>\<open>worker/phoebe_worker.py\<close>)\<close>

text \<open>The keys of the dispatch table \<^verbatim>\<open>self.commands\<close>.\<close>

definition command_names :: "string list" where
  "command_names =
     [''ping'', ''get_parameter'', ''get_value'', ''set_value'', ''add_dataset'',
      ''remove_dataset'', ''run_compute'', ''run_solver'', ''get_bundle'', ''load_bundle'',
      ''save_bundle'', ''get_datasets'', ''get_uniqueid'', ''is_parameter_constrained'',
      ''attach_parameters'']"

text \<open>
  What a dispatched method does is the engine's business: it returns a value (here already
  passed through \<^verbatim>\<open>make_json_serializable\<close> and accepted by \<^verbatim>\<open>send_json\<close>) or raises
  (\<^verbatim>\<open>str(e)\<close> and the formatted traceback), and it may change the bundle.
\<close>

datatype handler_result = Returned json | Raised string string

text \<open>How the loop ends: waiting in \<^verbatim>\<open>recv_json\<close> for a message, or with an exception that
  nothing catches.\<close>

datatype run_end = AwaitingRequest | Uncaught py_error

text \<open>Lists and dicts are not hashable, so \<^verbatim>\<open>command not in self.commands\<close> raises on them.\<close>

fun hashable :: "json \<Rightarrow> bool" where
  "hashable (JArr _) = False"
| "hashable (JObj _) = False"
| "hashable _ = True"

text \<open>\<^verbatim>\<open>f'{command}'\<close>: a string as it is, any other value as \<open>fmt\<close> prints it.\<close>

fun fstring :: "(json \<Rightarrow> string) \<Rightarrow> json \<Rightarrow> string" where
  "fstring fmt (JStr s) = s"
| "fstring fmt v = fmt v"

text \<open>
  \<^verbatim>\<open>PhoebeWorker.run\<close> on the messages that arrive, in order; the result is the list of
  replies sent and how the loop ended.
\<close>

fun run ::
  "(string \<Rightarrow> (string \<times> json) list \<Rightarrow> 'b \<Rightarrow> handler_result \<times> 'b) \<Rightarrow> (json \<Rightarrow> string) \<Rightarrow>
     json list \<Rightarrow> 'b \<Rightarrow> reply list \<times> run_end" where
  "run engine fmt [] bundle = ([], AwaitingRequest)"
| "run engine fmt (msg # rest) bundle =
     (case msg of
        JObj args \<Rightarrow>
          (case map_of args ''command'' of
             None \<Rightarrow> ([], Uncaught (KeyError ''command''))
           | Some cmd \<Rightarrow>
               let args' = AList.delete ''command'' args in
               if \<not> hashable cmd then ([], Uncaught (TypeError cmd))
               else
                 (case (case cmd of
                          JStr name \<Rightarrow> if name \<in> set command_names then Some name else None
                        | _ \<Rightarrow> None) of
                    None \<Rightarrow>
                      (case run engine fmt rest bundle of
                         (replies, e) \<Rightarrow>
                           (\<lparr>success = False, result = None,
                             error = Some (''API does not recognize command '' @ fstring fmt cmd @ ''.''),
                             traceback = None\<rparr> # replies, e))
                  | Some name \<Rightarrow>
                      (case engine name args' bundle of
                         (Returned v, bundle') \<Rightarrow>
                           (case run engine fmt rest bundle' of
                              (replies, e) \<Rightarrow>
                                (\<lparr>success = True, result = Some v, error = None,
                                  traceback = None\<rparr> # replies, e))
                       | (Raised text tb, bundle') \<Rightarrow>
                           (case run engine fmt rest bundle' of
                              (replies, e) \<Rightarrow>
                                (\<lparr>success = False, result = None, error = Some text,
                                  traceback = Some tb\<rparr> # replies, e)))))
      | _ \<Rightarrow> ([], Uncaught (ValueError msg)))"

subsection \<open>Predicates used in the statements\<close>

text \<open>
  The pool is a partition of the set \<open>R\<close> of ports: no port twice in the queue, none both
  queued and reserved, and together they are \<open>R\<close>.
\<close>

definition pool_inv :: "port set \<Rightarrow> state \<Rightarrow> bool" where
  "pool_inv R s \<longleftrightarrow>
     distinct (available_ports s) \<and> finite (reserved_ports s) \<and>
     set (available_ports s) \<inter> reserved_ports s = {} \<and>
     set (available_ports s) \<union> reserved_ports s = R"

subsection \<open>Concrete scenarios\<close>

text \<open>
  A broker configured with the port range \<open>[8000, 8003)\<close> and the exclude filter
  \<^verbatim>\<open>"ping"\<close>, before \<^verbatim>\<open>load_port_config\<close>: the module globals as the import leaves them,
  an initialised empty store, workers that run and exit when asked to.
\<close>

definition example_config :: config where
  "example_config =
     \<lparr>port_pool_start = 8000, port_pool_end = 8003,
      log_exclude_commands = ''ping'', log_include_commands = ''''\<rparr>"

definition fresh_state :: state where
  "fresh_state =
     \<lparr>cfg = example_config, server_registry = [], available_ports = [],
      reserved_ports = {}, db_initialised = True,
      db = \<lparr>sessions = [], session_metrics = [], session_commands = [],
             session_user_info = []\<rparr>,
      error_log = [],
      os_procs = (\<lambda>_. \<lparr>alive = True, graceful = True, rss = 1048576\<rparr>),
      clock = real, ticks = 0, db_ok = (\<lambda>_. True), db_ops = 0,
      rpc_reply = (\<lambda>_. \<lparr>success = True, result = Some JNull, error = None,
                           traceback = None\<rparr>),
      rpc_log = [], trace = []\<rparr>"

text \<open>The pool with port 8000 reserved, and the pool with every port reserved.\<close>

definition one_reserved :: state where
  "one_reserved = fresh_state\<lparr>available_ports := [8001, 8002], reserved_ports := {8000}\<rparr>"

definition all_reserved :: state where
  "all_reserved = fresh_state\<lparr>available_ports := [], reserved_ports := {8000, 8001, 8002}\<rparr>"

text \<open>Three requests: through a proxy chain, direct, and without a peer address.\<close>

definition proxied_request :: request where
  "proxied_request =
     \<lparr>headers = (\<lambda>name. if name = ''X-Forwarded-For'' then Some ''10.0.0.1, 10.0.0.2'' else None),
      client = Some (''192.168.1.5'', 40000)\<rparr>"

definition direct_request :: request where
  "direct_request = \<lparr>headers = (\<lambda>name. None), client = Some (''192.168.1.5'', 40000)\<rparr>"

definition anonymous_request :: request where
  "anonymous_request = \<lparr>headers = (\<lambda>name. None), client = None\<rparr>"

text \<open>\<^verbatim>\<open>type(args) is dict\<close>\<close>

fun is_dict :: "json \<Rightarrow> bool" where
  "is_dict (JObj _) = True"
| "is_dict _ = False"

text \<open>An engine that answers every call with \<^verbatim>\<open>None\<close>, and printing that is never needed.\<close>

definition idle_engine :: "string \<Rightarrow> (string \<times> json) list \<Rightarrow> unit \<Rightarrow> handler_result \<times> unit" where
  "idle_engine name args b = (Returned JNull, b)"

definition no_fmt :: "json \<Rightarrow> string" where
  "no_fmt v = []"

text \<open>The store cannot take the next write: the database path is not set, or the
  transaction fails.\<close>

definition storage_fails :: "state \<Rightarrow> bool" where
  "storage_fails s \<longleftrightarrow> \<not> db_initialised s \<or> \<not> db_ok s (db_ops s)"

text \<open>
  A call returns without an exception and leaves the registry and the port pool as they
  were; when the store fails, the tables are as they were, too.
\<close>

definition swallows :: "unit prog \<Rightarrow> state \<Rightarrow> bool" where
  "swallows op s \<longleftrightarrow>
     fst (op s) = Inr () \<and>
     server_registry (snd (op s)) = server_registry s \<and>
     available_ports (snd (op s)) = available_ports s \<and>
     reserved_ports (snd (op s)) = reserved_ports s \<and>
     (storage_fails s \<longrightarrow> db (snd (op s)) = db s)"

text \<open>A call adds exactly one record to the error log, with the given message.\<close>

definition logs_error :: "string \<Rightarrow> unit prog \<Rightarrow> state \<Rightarrow> bool" where
  "logs_error msg op s \<longleftrightarrow>
     length (error_log (snd (op s))) = Suc (length (error_log s)) \<and>
     butlast (error_log (snd (op s))) = error_log s \<and>
     fst (last (error_log (snd (op s)))) = msg"

text \<open>A store whose every transaction fails.\<close>

definition failing_store :: state where
  "failing_store = fresh_state\<lparr>db_ok := (\<lambda>_. False)\<rparr>"

text \<open>A broker that logs only \<^verbatim>\<open>run_compute\<close> and \<^verbatim>\<open>ping\<close>, although \<^verbatim>\<open>ping\<close> is excluded.\<close>

definition include_config :: config where
  "include_config =
     \<lparr>port_pool_start = 8000, port_pool_end = 8003,
      log_exclude_commands = ''ping'', log_include_commands = ''run_compute, ping''\<rparr>"

text \<open>
  One session \<^verbatim>\<open>"a"\<close> on port 8000 whose worker is process 7, as \<^verbatim>\<open>launch_phoebe_worker\<close>
  leaves it; and the same after the worker has died.
\<close>

definition live_session :: state where
  "live_session =
     fresh_state\<lparr>
       server_registry :=
         [(''a'', \<lparr>session_id = ''a'', created_at = 0, last_activity = 0, mem_used = 0,
                   port = 8000, user_first_name = None, user_last_name = None,
                   user_display_name = ''Not logged in'', user_email = None,
                   process = Some 7\<rparr>)],
       available_ports := [8001, 8002], reserved_ports := {8000},
       db := \<lparr>sessions =
                [\<lparr>s_session_id = ''a'', s_created_at = 0, s_destroyed_at = None,
                  s_last_activity = 0, s_port = 8000, s_client_ip = None,
                  s_user_agent = None, s_termination_reason = None,
                  s_status = ''active''\<rparr>],
              session_metrics = [], session_commands = [], session_user_info = []\<rparr>,
       ticks := 1, db_ops := 1\<rparr>"

definition dead_worker :: state where
  "dead_worker = set_alive 7 False live_session"

text \<open>A program leaves the projection \<open>f\<close> of the state as it was, however it ends.\<close>

definition keeps :: "(state \<Rightarrow> 'c) \<Rightarrow> 'a prog \<Rightarrow> bool" where
  "keeps f m \<longleftrightarrow> (\<forall>s. f (snd (m s)) = f s)"

text \<open>A program never raises.\<close>

definition total :: "'a prog \<Rightarrow> bool" where
  "total m \<longleftrightarrow> (\<forall>s. \<exists>x. fst (m s) = Inr x)"

text \<open>In a trace, event \<open>a\<close> happens and event \<open>b\<close> happens after the first \<open>a\<close>.\<close>

definition precedes :: "event \<Rightarrow> event \<Rightarrow> event list \<Rightarrow> bool" where
  "precedes a b tr \<longleftrightarrow> a \<in> set tr \<and> b \<in> set (tl (dropWhile (\<lambda>e. e \<noteq> a) tr))"

text \<open>
  The signals \<^verbatim>\<open>shutdown_server\<close> sends to the worker of an entry: none when the entry has
  no process or the process is not running, \<^verbatim>\<open>terminate\<close> when it runs, and \<^verbatim>\<open>kill\<close> after
  that when it has not exited within the grace period.
\<close>

definition termination_signals :: "state \<Rightarrow> pid option \<Rightarrow> event list" where
  "termination_signals s h =
     (case h of
        None \<Rightarrow> []
      | Some proc \<Rightarrow>
          if alive (os_procs s proc)
          then (if graceful (os_procs s proc) then [EvTerminate proc]
                else [EvTerminate proc, EvKill proc])
          else [])"

text \<open>
  The session \<^verbatim>\<open>"a"\<close> in a broker whose store fails and whose pool has lost track of the
  session's port (it is not reserved).
\<close>

definition stray_session :: state where
  "stray_session = live_session\<lparr>reserved_ports := {}, db_ok := (\<lambda>_. False)\<rparr>"

section \<open>Verified properties\<close>

subsection \<open>Port pool\<close>

lemma request_port_cases:
  "request_port s =
     (if available_ports s = [] then (Inl NoAvailablePorts, s)
      else (Inr (hd (available_ports s)),
            s\<lparr>available_ports := tl (available_ports s),
              reserved_ports := insert (hd (available_ports s)) (reserved_ports s)\<rparr>))"
  by (cases "available_ports s") (simp_all add: request_port_def)

lemma release_port_twice: "release_port q (release_port q s) = release_port q s"
  by (simp add: release_port_def)

text \<open>
  Claim C7. \<^verbatim>\<open>request_port\<close> removes the head of the available queue, reserves it and
  returns it; on an empty queue it raises the no-capacity error and leaves the state as it
  was. \<^verbatim>\<open>release_port\<close> moves a reserved port to the tail of the queue; for a port that is
  not reserved it changes nothing, so releasing twice is the same as releasing once.
\<close>

theorem port_pool_operations:
  "(available_ports s = p # rest \<longrightarrow>
      request_port s =
        (Inr p, s\<lparr>available_ports := rest, reserved_ports := insert p (reserved_ports s)\<rparr>)) \<and>
   (available_ports s = [] \<longrightarrow> request_port s = (Inl NoAvailablePorts, s)) \<and>
   (q \<in> reserved_ports s \<longrightarrow>
      available_ports (release_port q s) = available_ports s @ [q] \<and>
      reserved_ports (release_port q s) = reserved_ports s - {q}) \<and>
   (q \<notin> reserved_ports s \<longrightarrow> release_port q s = s) \<and>
   release_port q (release_port q s) = release_port q s"
  by (simp add: request_port_def release_port_def)

theorem port_pool_operations_witness:
  "available_ports one_reserved = 8001 # [8002] \<and>
   fst (request_port one_reserved) = Inr 8001 \<and>
   available_ports (snd (request_port one_reserved)) = [8002] \<and>
   reserved_ports (snd (request_port one_reserved)) = {8000, 8001} \<and>
   8000 \<in> reserved_ports one_reserved \<and>
   available_ports (release_port 8000 one_reserved) = [8001, 8002, 8000] \<and>
   reserved_ports (release_port 8000 one_reserved) = {} \<and>
   available_ports all_reserved = [] \<and>
   request_port all_reserved = (Inl NoAvailablePorts, all_reserved) \<and>
   9 \<notin> reserved_ports all_reserved \<and>
   release_port 9 all_reserved = all_reserved"
proof -
  have a: "available_ports one_reserved = 8001 # [8002]"
    and r: "reserved_ports one_reserved = {8000}"
    by (simp_all add: one_reserved_def)
  have e: "available_ports all_reserved = []"
    and n: "9 \<notin> reserved_ports all_reserved"
    by (simp_all add: all_reserved_def)
  show ?thesis
    using port_pool_operations [of one_reserved 8001 "[8002]" 8000]
      port_pool_operations [of all_reserved 0 "[]" 9] a r e n
    by auto
qed

lemma pool_step_cfg: "cfg (pool_step x s) = cfg s"
  by (cases x) (simp_all add: request_port_cases release_port_def)

lemma pool_step_inv: "pool_inv R s \<Longrightarrow> pool_inv R (pool_step x s)"
proof (cases x)
  case Request
  assume inv: "pool_inv R s"
  show ?thesis
  proof (cases "available_ports s")
    case Nil
    with inv Request show ?thesis by (simp add: request_port_def)
  next
    case (Cons p rest)
    with inv have "p \<notin> set rest" "p \<notin> reserved_ports s" "distinct rest"
      "set rest \<inter> reserved_ports s = {}" "insert p (set rest) \<union> reserved_ports s = R"
      "finite (reserved_ports s)"
      by (auto simp: pool_inv_def)
    then show ?thesis using Request Cons
      by (auto simp: pool_inv_def request_port_def)
  qed
next
  case (Release q)
  assume inv: "pool_inv R s"
  then show ?thesis using Release
    by (auto simp: pool_inv_def release_port_def)
qed

lemma pool_run_inv: "pool_inv R s \<Longrightarrow> pool_inv R (pool_run ops s)"
  by (induction ops arbitrary: s) (simp_all add: pool_step_inv)

lemma pool_run_cfg: "cfg (pool_run ops s) = cfg s"
  by (induction ops arbitrary: s) (simp_all add: pool_step_cfg)

lemma load_port_config_inv:
  "reserved_ports s = {} \<Longrightarrow>
   pool_inv {port_pool_start (cfg s) ..< port_pool_end (cfg s)} (load_port_config s)"
  by (auto simp: pool_inv_def load_port_config_def)

lemma pool_inv_card:
  assumes "pool_inv {lo ..< hi} s"
  shows "length (available_ports s) + card (reserved_ports s) = nat (hi - lo)"
proof -
  from assms have d: "distinct (available_ports s)" and f: "finite (reserved_ports s)"
    and i: "set (available_ports s) \<inter> reserved_ports s = {}"
    and u: "set (available_ports s) \<union> reserved_ports s = {lo ..< hi}"
    by (simp_all add: pool_inv_def)
  have "length (available_ports s) = card (set (available_ports s))"
    using d by (simp add: distinct_card)
  moreover have "card (set (available_ports s) \<union> reserved_ports s) =
      card (set (available_ports s)) + card (reserved_ports s)"
    using f i by (simp add: card_Un_disjoint)
  ultimately show ?thesis using u by simp
qed

text \<open>
  Claim C6. From the pool that \<^verbatim>\<open>load_port_config\<close> builds over \<open>[start, end)\<close> with nothing
  reserved, after any sequence of \<^verbatim>\<open>request_port\<close> and \<^verbatim>\<open>release_port\<close> calls: a port is in
  the range iff it is queued or reserved, never both, the queue has no duplicates, the two
  sizes add up to \<open>end - start\<close>, and that is the \<^verbatim>\<open>total_ports\<close> of \<^verbatim>\<open>get_port_status\<close>
  (for \<open>start \<le> end\<close>; an inverted range is an empty pool).
\<close>

theorem port_pool_partition:
  assumes "reserved_ports s0 = {}"
  shows "let s = pool_run ops (load_port_config s0);
             lo = port_pool_start (cfg s0); hi = port_pool_end (cfg s0)
         in distinct (available_ports s) \<and>
            (\<forall>p. (lo \<le> p \<and> p < hi) = (p \<in> set (available_ports s) \<or> p \<in> reserved_ports s)) \<and>
            (\<forall>p. \<not> (p \<in> set (available_ports s) \<and> p \<in> reserved_ports s)) \<and>
            (lo \<le> hi \<longrightarrow> int (length (available_ports s)) + int (card (reserved_ports s)) = hi - lo) \<and>
            (lo \<le> hi \<longrightarrow> total_ports (get_port_status s) = hi - lo)"
proof -
  define s where "s = pool_run ops (load_port_config s0)"
  define lo where "lo = port_pool_start (cfg s0)"
  define hi where "hi = port_pool_end (cfg s0)"
  have "cfg (load_port_config s0) = cfg s0" by (simp add: load_port_config_def)
  then have inv: "pool_inv {lo ..< hi} s"
    unfolding s_def lo_def hi_def
    using pool_run_inv [OF load_port_config_inv [OF assms]] by simp
  have c: "length (available_ports s) + card (reserved_ports s) = nat (hi - lo)"
    by (rule pool_inv_card [OF inv])
  have m: "\<And>p. (lo \<le> p \<and> p < hi) = (p \<in> set (available_ports s) \<or> p \<in> reserved_ports s)"
    using inv by (auto simp: pool_inv_def)
  have x: "\<And>p. \<not> (p \<in> set (available_ports s) \<and> p \<in> reserved_ports s)"
    using inv by (auto simp: pool_inv_def)
  have d: "distinct (available_ports s)" using inv by (simp add: pool_inv_def)
  have t: "lo \<le> hi \<longrightarrow> int (length (available_ports s)) + int (card (reserved_ports s)) = hi - lo"
    using c by linarith
  show ?thesis
    unfolding Let_def s_def [symmetric] lo_def [symmetric] hi_def [symmetric]
    using d m x t by (simp add: get_port_status_def)
qed

theorem port_pool_partition_witness:
  "reserved_ports fresh_state = {} \<and>
   port_pool_start (cfg fresh_state) \<le> port_pool_end (cfg fresh_state) \<and>
   total_ports (get_port_status
     (pool_run [Request, Request, Release 8000, Release 9, Request] (load_port_config fresh_state))) = 3"
proof -
  have r: "reserved_ports fresh_state = {}"
    by (simp add: fresh_state_def)
  have c: "port_pool_start (cfg fresh_state) = 8000" "port_pool_end (cfg fresh_state) = 8003"
    by (simp_all add: fresh_state_def example_config_def)
  show ?thesis
    using port_pool_partition [OF r, of "[Request, Request, Release 8000, Release 9, Request]"] r c
    by (simp add: Let_def)
qed

subsection \<open>Client address\<close>

lemma py_split_not_Nil: "py_split sep s \<noteq> []"
  by (induction s) (auto split: list.splits)

lemma py_split_hd: "hd (py_split sep s) = takeWhile (\<lambda>c. c \<noteq> sep) s"
  by (induction s) (auto split: list.splits simp: py_split_not_Nil)

lemma rev_dropWhile_takeWhile:
  "rev (dropWhile P (rev xs)) @ rev (takeWhile P (rev xs)) = xs"
proof -
  have "rev (takeWhile P (rev xs) @ dropWhile P (rev xs)) = rev (rev xs)"
    by (simp only: takeWhile_dropWhile_id)
  then show ?thesis
    by (simp only: rev_append rev_rev_ident)
qed

lemma strip_decompose:
  "\<exists>pre post. s = pre @ strip s @ post \<and> (\<forall>c \<in> set pre. is_space c) \<and> (\<forall>c \<in> set post. is_space c)"
proof -
  let ?pre = "takeWhile is_space s"
  let ?mid = "dropWhile is_space s"
  let ?post = "rev (takeWhile is_space (rev ?mid))"
  have m: "strip s @ ?post = ?mid"
    unfolding strip_def by (rule rev_dropWhile_takeWhile)
  have "s = ?pre @ ?mid" by simp
  with m have "s = ?pre @ strip s @ ?post" by simp
  moreover have "\<forall>c \<in> set ?pre. is_space c"
    by (auto dest: set_takeWhileD)
  moreover have "\<forall>c \<in> set ?post. is_space c"
    by (auto dest: set_takeWhileD)
  ultimately show ?thesis by blast
qed

lemma strip_ends:
  assumes ne: "strip s \<noteq> []"
  shows "\<not> is_space (hd (strip s)) \<and> \<not> is_space (last (strip s))"
proof -
  let ?mid = "dropWhile is_space s"
  let ?r = "dropWhile is_space (rev ?mid)"
  from ne have r: "?r \<noteq> []" by (simp add: strip_def)
  then have "\<not> is_space (hd ?r)" by (rule hd_dropWhile)
  then have l: "\<not> is_space (last (strip s))"
    using r by (simp add: strip_def last_rev)
  have mne: "?mid \<noteq> []"
  proof
    assume e: "?mid = []"
    have "?r = []" unfolding e by simp
    with r show False by simp
  qed
  then have h: "\<not> is_space (hd ?mid)" by (rule hd_dropWhile)
  have "strip s @ rev (takeWhile is_space (rev ?mid)) = ?mid"
    unfolding strip_def by (rule rev_dropWhile_takeWhile)
  then have "hd ?mid = hd (strip s)" using ne by (metis hd_append2)
  with h l show ?thesis by simp
qed

text \<open>
  Claim C9. With an \<^verbatim>\<open>X-Forwarded-For\<close> header, \<^verbatim>\<open>get_client_ip\<close> returns the part of its
  value before the first comma, trimmed: what is cut off at either end is whitespace only,
  and the result neither starts nor ends with whitespace. Without the header it returns the
  host of the peer when there is one, and \<^verbatim>\<open>"unknown"\<close> otherwise.
\<close>

theorem get_client_ip_precedence:
  "(headers r ''X-Forwarded-For'' = Some v \<longrightarrow>
      get_client_ip r = Inr (strip (takeWhile (\<lambda>c. c \<noteq> CHR '','') v)) \<and>
      (\<exists>pre post. takeWhile (\<lambda>c. c \<noteq> CHR '','') v = pre @ strip (takeWhile (\<lambda>c. c \<noteq> CHR '','') v) @ post \<and>
         (\<forall>c \<in> set pre. is_space c) \<and> (\<forall>c \<in> set post. is_space c)) \<and>
      (strip (takeWhile (\<lambda>c. c \<noteq> CHR '','') v) \<noteq> [] \<longrightarrow>
         \<not> is_space (hd (strip (takeWhile (\<lambda>c. c \<noteq> CHR '','') v))) \<and>
         \<not> is_space (last (strip (takeWhile (\<lambda>c. c \<noteq> CHR '','') v))))) \<and>
   (headers r ''X-Forwarded-For'' = None \<and> client r = Some (host, peer_port) \<longrightarrow>
      get_client_ip r = Inr host) \<and>
   (headers r ''X-Forwarded-For'' = None \<and> client r = None \<longrightarrow>
      get_client_ip r = Inr ''unknown'')"
proof -
  have a: "headers r ''X-Forwarded-For'' = Some v \<Longrightarrow>
      get_client_ip r = Inr (strip (takeWhile (\<lambda>c. c \<noteq> CHR '','') v))"
    using py_split_hd [of "CHR '',''" v] py_split_not_Nil [of "CHR '',''" v]
    by (cases "py_split CHR '','' v") (simp_all add: get_client_ip_def)
  have b: "headers r ''X-Forwarded-For'' = None \<Longrightarrow> client r = Some (host, peer_port) \<Longrightarrow>
      get_client_ip r = Inr host"
    by (simp add: get_client_ip_def)
  have c: "headers r ''X-Forwarded-For'' = None \<Longrightarrow> client r = None \<Longrightarrow>
      get_client_ip r = Inr ''unknown''"
    by (simp add: get_client_ip_def)
  show ?thesis
    using a b c strip_decompose [of "takeWhile (\<lambda>c. c \<noteq> CHR '','') v"]
      strip_ends [of "takeWhile (\<lambda>c. c \<noteq> CHR '','') v"]
    by blast
qed

theorem get_client_ip_precedence_witness:
  "headers proxied_request ''X-Forwarded-For'' = Some ''10.0.0.1, 10.0.0.2'' \<and>
   get_client_ip proxied_request = Inr ''10.0.0.1'' \<and>
   headers direct_request ''X-Forwarded-For'' = None \<and>
   client direct_request = Some (''192.168.1.5'', 40000) \<and>
   get_client_ip direct_request = Inr ''192.168.1.5'' \<and>
   headers anonymous_request ''X-Forwarded-For'' = None \<and>
   client anonymous_request = None \<and>
   get_client_ip anonymous_request = Inr ''unknown''"
proof -
  have h1: "headers proxied_request ''X-Forwarded-For'' = Some ''10.0.0.1, 10.0.0.2''"
    by (simp add: proxied_request_def)
  have h2: "headers direct_request ''X-Forwarded-For'' = None"
    "client direct_request = Some (''192.168.1.5'', 40000)"
    by (simp_all add: direct_request_def)
  have h3: "headers anonymous_request ''X-Forwarded-For'' = None" "client anonymous_request = None"
    by (simp_all add: anonymous_request_def)
  have s: "strip (takeWhile (\<lambda>c. c \<noteq> CHR '','') ''10.0.0.1, 10.0.0.2'') = ''10.0.0.1''"
    by (simp add: strip_def is_space_def)
  show ?thesis
    using get_client_ip_precedence [of proxied_request "''10.0.0.1, 10.0.0.2''"]
      get_client_ip_precedence [of direct_request _ "''192.168.1.5''" 40000]
      get_client_ip_precedence [of anonymous_request]
      h1 h2 h3 s
    by simp
qed

subsection \<open>Worker command loop\<close>

lemma member_command_names:
  "''frobnicate'' \<notin> set command_names"
  by (simp add: command_names_def)

text \<open>
  Claim C10. In \<^verbatim>\<open>PhoebeWorker.run\<close>, a request whose \<^verbatim>\<open>command\<close> is a name outside the
  dispatch table is answered with the error envelope and the loop goes on with the next
  request. A mapping without the \<^verbatim>\<open>command\<close> key ends the loop with a \<^verbatim>\<open>KeyError\<close>, a
  request that is not a mapping ends it with a \<^verbatim>\<open>ValueError\<close>; in both cases no reply is
  sent for that request or any later one.
\<close>

theorem run_malformed_requests:
  "(map_of args ''command'' = Some (JStr name) \<and> name \<notin> set command_names \<longrightarrow>
      run engine fmt (JObj args # rest) bundle =
        (\<lparr>success = False, result = None,
          error = Some (''API does not recognize command '' @ name @ ''.''),
          traceback = None\<rparr> # fst (run engine fmt rest bundle),
         snd (run engine fmt rest bundle))) \<and>
   (map_of args ''command'' = None \<longrightarrow>
      run engine fmt (JObj args # rest) bundle = ([], Uncaught (KeyError ''command''))) \<and>
   (\<not> is_dict msg \<longrightarrow>
      run engine fmt (msg # rest) bundle = ([], Uncaught (ValueError msg)))"
proof -
  have a: "map_of args ''command'' = Some (JStr name) \<Longrightarrow> name \<notin> set command_names \<Longrightarrow>
      run engine fmt (JObj args # rest) bundle =
        (\<lparr>success = False, result = None,
          error = Some (''API does not recognize command '' @ name @ ''.''),
          traceback = None\<rparr> # fst (run engine fmt rest bundle),
         snd (run engine fmt rest bundle))"
    by (simp add: Let_def split: prod.splits)
  have b: "map_of args ''command'' = None \<Longrightarrow>
      run engine fmt (JObj args # rest) bundle = ([], Uncaught (KeyError ''command''))"
    by simp
  have c: "\<not> is_dict msg \<Longrightarrow> run engine fmt (msg # rest) bundle = ([], Uncaught (ValueError msg))"
    by (cases msg) simp_all
  from a b c show ?thesis by blast
qed

theorem run_malformed_requests_witness:
  "map_of [(''command'', JStr ''frobnicate''), (''x'', JInt 1)] ''command'' = Some (JStr ''frobnicate'') \<and>
   ''frobnicate'' \<notin> set command_names \<and>
   run idle_engine no_fmt
     [JObj [(''command'', JStr ''frobnicate''), (''x'', JInt 1)],
      JObj [(''twig'', JStr ''period@binary'')],
      JObj [(''command'', JStr ''ping'')]] () =
     ([\<lparr>success = False, result = None,
        error = Some ''API does not recognize command frobnicate.'', traceback = None\<rparr>],
      Uncaught (KeyError ''command'')) \<and>
   map_of [(''twig'', JStr ''period@binary'')] ''command'' = None \<and>
   \<not> is_dict (JArr [JStr ''ping'']) \<and>
   run idle_engine no_fmt [JArr [JStr ''ping''], JObj [(''command'', JStr ''ping'')]] () =
     ([], Uncaught (ValueError (JArr [JStr ''ping''])))"
proof -
  have n: "''frobnicate'' \<notin> set command_names"
    by (rule member_command_names)
  have k: "run idle_engine no_fmt
      [JObj [(''twig'', JStr ''period@binary'')], JObj [(''command'', JStr ''ping'')]] () =
      ([], Uncaught (KeyError ''command''))"
    using run_malformed_requests [of "[(''twig'', JStr ''period@binary'')]" _ idle_engine no_fmt
        "[JObj [(''command'', JStr ''ping'')]]" "()" JNull]
    by simp
  show ?thesis
    using run_malformed_requests [of "[(''command'', JStr ''frobnicate''), (''x'', JInt 1)]"
        "''frobnicate''" idle_engine no_fmt
        "[JObj [(''twig'', JStr ''period@binary'')], JObj [(''command'', JStr ''ping'')]]" "()"
        "JArr [JStr ''ping'']"]
      run_malformed_requests [of "[]" "[]" idle_engine no_fmt "[JObj [(''command'', JStr ''ping'')]]" "()"
        "JArr [JStr ''ping'']"]
      n k
    by simp
qed

subsection \<open>Session store\<close>

lemma try_transaction_swallows:
  "swallows (try_except_log msg (transaction stmt)) s"
  by (auto simp: swallows_def storage_fails_def try_except_log_def transaction_def log_error_def
      Let_def split: sum.splits)

lemma try_transaction_logs:
  "storage_fails s \<Longrightarrow> logs_error msg (try_except_log msg (transaction stmt)) s"
  by (auto simp: logs_error_def storage_fails_def try_except_log_def transaction_def log_error_def
      Let_def split: sum.splits)

lemma log_command_execution_swallows:
  "swallows (log_command_execution sid ts name succ ms err) s"
proof (cases "should_log_command (cfg s) name")
  case True
  have "log_command_execution sid ts name succ ms err s =
      try_except_log ''Failed to log command execution''
        (transaction (insert_command sid ts name (if succ then 1 else 0) ms err)) s"
    using True by (simp add: log_command_execution_def)
  then show ?thesis
    using try_transaction_swallows
      [of "''Failed to log command execution''"
        "insert_command sid ts name (if succ then 1 else 0) ms err" s]
    by (simp add: swallows_def)
next
  case False
  then show ?thesis
    by (simp add: swallows_def log_command_execution_def)
qed

lemma log_command_execution_logs:
  assumes "storage_fails s" "should_log_command (cfg s) name"
  shows "logs_error ''Failed to log command execution''
           (log_command_execution sid ts name succ ms err) s"
proof -
  have "log_command_execution sid ts name succ ms err s =
      try_except_log ''Failed to log command execution''
        (transaction (insert_command sid ts name (if succ then 1 else 0) ms err)) s"
    using assms(2) by (simp add: log_command_execution_def)
  then show ?thesis
    using try_transaction_logs [OF assms(1),
        of "''Failed to log command execution''"
        "insert_command sid ts name (if succ then 1 else 0) ms err"]
    by (simp add: logs_error_def)
qed

text \<open>
  Claim C4. Each of the six store operations returns normally whatever the storage layer
  does, and changes neither the registry nor the port pool. When the store fails, the
  tables stay as they were and one error record with the operation's message is logged
  (for a command, when the filter lets it through).
\<close>

theorem store_failures_are_swallowed:
  "swallows (log_session_created sid t p ip agent) s \<and>
   swallows (log_session_destroyed sid t reason) s \<and>
   swallows (log_session_activity sid t) s \<and>
   swallows (log_session_metric sid t mem) s \<and>
   swallows (log_command_execution sid t name succ ms err) s \<and>
   swallows (log_user_info_update sid first_name last_name email t) s \<and>
   (storage_fails s \<longrightarrow>
      logs_error ''Failed to log session creation'' (log_session_created sid t p ip agent) s \<and>
      logs_error ''Failed to log session destruction'' (log_session_destroyed sid t reason) s \<and>
      logs_error ''Failed to log session activity'' (log_session_activity sid t) s \<and>
      logs_error ''Failed to log session metric'' (log_session_metric sid t mem) s \<and>
      (should_log_command (cfg s) name \<longrightarrow>
         logs_error ''Failed to log command execution''
           (log_command_execution sid t name succ ms err) s) \<and>
      logs_error ''Failed to log user info update''
        (log_user_info_update sid first_name last_name email t) s)"
  unfolding log_session_created_def log_session_destroyed_def log_session_activity_def
    log_session_metric_def log_user_info_update_def
  using try_transaction_swallows try_transaction_logs log_command_execution_swallows
    log_command_execution_logs
  by blast

lemma should_log_get_value: "should_log_command example_config ''get_value''"
  by (simp add: should_log_command_def example_config_def command_list_def strip_def is_space_def)

lemma should_not_log_ping: "\<not> should_log_command example_config ''ping''"
  by (simp add: should_log_command_def example_config_def command_list_def strip_def is_space_def)

theorem store_failures_are_swallowed_witness:
  "storage_fails failing_store \<and>
   should_log_command (cfg failing_store) ''get_value'' \<and>
   fst (log_session_created ''a'' 5 8000 None None failing_store) = Inr () \<and>
   fst (log_session_destroyed ''a'' 5 ''manual'' failing_store) = Inr () \<and>
   fst (log_session_activity ''a'' 5 failing_store) = Inr () \<and>
   fst (log_session_metric ''a'' 5 1 failing_store) = Inr () \<and>
   fst (log_command_execution ''a'' 5 ''get_value'' True None None failing_store) = Inr () \<and>
   fst (log_user_info_update ''a'' ''Test'' ''User'' ''t@example.com'' 5 failing_store) = Inr () \<and>
   db (snd (log_command_execution ''a'' 5 ''get_value'' True None None failing_store)) = db failing_store \<and>
   length (error_log (snd (log_command_execution ''a'' 5 ''get_value'' True None None failing_store))) = 1"
proof -
  have f: "storage_fails failing_store"
    by (simp add: storage_fails_def failing_store_def fresh_state_def)
  have c: "should_log_command (cfg failing_store) ''get_value''"
    using should_log_get_value by (simp add: failing_store_def fresh_state_def)
  have e: "error_log failing_store = []"
    by (simp add: failing_store_def fresh_state_def)
  show ?thesis
    using store_failures_are_swallowed
      [of "''a''" 5 8000 None None failing_store "''manual''" 1 "''get_value''" True None None
        "''Test''" "''User''" "''t@example.com''"] f c e
    by (simp add: swallows_def logs_error_def)
qed

text \<open>
  Claim C5, as amended. \<^verbatim>\<open>should_log_command\<close>: with a non-empty include list a command
  is logged iff its name is in that list, whatever the exclude list says; with an empty
  include list it is logged iff its name is not in the exclude list.
  \<^verbatim>\<open>log_command_execution\<close> leaves the state untouched for a command the filter rejects;
  for a command the filter lets through it appends exactly one row to
  \<^verbatim>\<open>session_commands\<close> when the store takes the write, and when the store fails it returns
  normally with no row added.
\<close>

theorem command_filter_semantics:
  "(command_list (log_include_commands c) \<noteq> [] \<longrightarrow>
      should_log_command c name = (name \<in> set (command_list (log_include_commands c)))) \<and>
   (command_list (log_include_commands c) = [] \<longrightarrow>
      should_log_command c name = (name \<notin> set (command_list (log_exclude_commands c)))) \<and>
   (\<not> should_log_command (cfg s) name \<longrightarrow>
      snd (log_command_execution sid ts name succ ms err s) = s) \<and>
   (should_log_command (cfg s) name \<and> \<not> storage_fails s \<longrightarrow>
      session_commands (db (snd (log_command_execution sid ts name succ ms err s))) =
        session_commands (db s) @
          [\<lparr>c_id = Suc (length (session_commands (db s))), c_session_id = sid,
            c_timestamp = ts, c_command_name = name, c_success = (if succ then 1 else 0),
            c_execution_time_ms = ms, c_error_message = err\<rparr>] \<and>
      length (session_commands (db (snd (log_command_execution sid ts name succ ms err s)))) =
        Suc (length (session_commands (db s)))) \<and>
   (should_log_command (cfg s) name \<and> storage_fails s \<longrightarrow>
      fst (log_command_execution sid ts name succ ms err s) = Inr () \<and>
      db (snd (log_command_execution sid ts name succ ms err s)) = db s)"
  by (auto simp: should_log_command_def Let_def log_command_execution_def try_except_log_def
      transaction_def insert_command_def storage_fails_def log_error_def)

lemma command_list_examples:
  "command_list ''run_compute, ping'' = [''run_compute'', ''ping'']"
  "command_list ''ping'' = [''ping'']"
  "command_list '''' = []"
  by (simp_all add: command_list_def strip_def is_space_def)

theorem command_filter_semantics_witness:
  "command_list (log_include_commands include_config) \<noteq> [] \<and>
   should_log_command include_config ''ping'' \<and>
   \<not> should_log_command include_config ''get_value'' \<and>
   command_list (log_include_commands example_config) = [] \<and>
   \<not> should_log_command (cfg fresh_state) ''ping'' \<and>
   should_log_command (cfg fresh_state) ''get_value'' \<and>
   \<not> storage_fails fresh_state \<and>
   snd (log_command_execution ''a'' 5 ''ping'' True None None fresh_state) = fresh_state \<and>
   length (session_commands (db (snd (log_command_execution ''a'' 5 ''get_value'' True None None fresh_state)))) = 1 \<and>
   should_log_command (cfg failing_store) ''get_value'' \<and>
   storage_fails failing_store \<and>
   db (snd (log_command_execution ''a'' 5 ''get_value'' True None None failing_store)) = db failing_store"
proof -
  have i: "command_list (log_include_commands include_config) = [''run_compute'', ''ping'']"
    by (simp add: include_config_def command_list_examples)
  have x: "command_list (log_include_commands example_config) = []"
    "command_list (log_exclude_commands example_config) = [''ping'']"
    by (simp_all add: example_config_def command_list_examples)
  have c: "cfg fresh_state = example_config" "session_commands (db fresh_state) = []"
    by (simp_all add: fresh_state_def)
  have f: "\<not> storage_fails fresh_state" "storage_fails failing_store"
    by (simp_all add: storage_fails_def fresh_state_def failing_store_def)
  have g: "cfg failing_store = example_config"
    by (simp add: failing_store_def fresh_state_def)
  show ?thesis
    using command_filter_semantics [of include_config "''ping''" fresh_state "''a''" 5 True None None]
      command_filter_semantics [of include_config "''get_value''" fresh_state "''a''" 5 True None None]
      command_filter_semantics [of example_config "''ping''" fresh_state "''a''" 5 True None None]
      command_filter_semantics [of example_config "''get_value''" fresh_state "''a''" 5 True None None]
      command_filter_semantics [of example_config "''get_value''" failing_store "''a''" 5 True None None]
      i x c f g
    by simp
qed

text \<open>
  Claim C5 as stated fails where it promises a row for every command that passes the
  filter: with a store whose transactions fail, \<^verbatim>\<open>get_value\<close> passes the filter (the
  include list is empty and the exclude list does not name it), the call returns normally,
  and \<^verbatim>\<open>session_commands\<close> stays empty.
\<close>

theorem command_rows_counterexample:
  "command_list (log_include_commands (cfg failing_store)) = [] \<and>
   ''get_value'' \<notin> set (command_list (log_exclude_commands (cfg failing_store))) \<and>
   should_log_command (cfg failing_store) ''get_value'' \<and>
   session_commands (db failing_store) = [] \<and>
   session_commands (db (snd (log_command_execution ''a'' 5 ''get_value'' True None None failing_store))) = [] \<and>
   fst (log_command_execution ''a'' 5 ''get_value'' True None None failing_store) = Inr ()"
  by (simp add: failing_store_def fresh_state_def example_config_def command_list_examples
      should_log_command_def log_command_execution_def try_except_log_def transaction_def
      log_error_def Let_def)

subsection \<open>Frame rules\<close>

lemma keepsD: "keeps f m \<Longrightarrow> f (snd (m s)) = f s"
  by (simp add: keeps_def)

lemma keeps_ret: "keeps f (ret x)"
  by (simp add: keeps_def ret_def)

lemma keeps_raise: "keeps f (raise e)"
  by (simp add: keeps_def raise_def)

lemma keeps_bind:
  assumes "keeps f m" "\<And>x. keeps f (g x)"
  shows "keeps f (bind m g)"
proof -
  have "f (snd (bind m g s)) = f s" for s
  proof (cases "m s")
    case (Pair r s')
    then have "f s' = f s" using assms(1) by (metis keepsD snd_conv)
    then show ?thesis
      using Pair assms(2) by (cases r) (simp_all add: bind_def keeps_def)
  qed
  then show ?thesis by (simp add: keeps_def)
qed

lemma keeps_catch:
  assumes "keeps f m" "\<And>e. keeps f (h e)"
  shows "keeps f (catch m h)"
proof -
  have "f (snd (catch m h s)) = f s" for s
  proof (cases "m s")
    case (Pair r s')
    then have "f s' = f s" using assms(1) by (metis keepsD snd_conv)
    then show ?thesis
      using Pair assms(2) by (cases r) (simp_all add: catch_def keeps_def)
  qed
  then show ?thesis by (simp add: keeps_def)
qed

lemma keeps_effect: "(\<And>s. f (h s) = f s) \<Longrightarrow> keeps f (effect h)"
  by (simp add: keeps_def effect_def)

lemma keeps_time_time: "(\<And>s n. f (s\<lparr>ticks := n\<rparr>) = f s) \<Longrightarrow> keeps f time_time"
  by (simp add: keeps_def time_time_def)

lemma keeps_store:
  assumes "\<And>s n. f (s\<lparr>db_ops := n\<rparr>) = f s" "\<And>s d. f (s\<lparr>db := d\<rparr>) = f s"
    "\<And>s l. f (s\<lparr>error_log := l\<rparr>) = f s"
  shows "keeps f (try_except_log msg (transaction stmt))"
  using assms
  by (auto simp: keeps_def try_except_log_def transaction_def log_error_def Let_def
      split: sum.splits)

lemma total_store: "total (try_except_log msg (transaction stmt))"
  by (auto simp: total_def try_except_log_def split: prod.splits sum.splits)

lemma totalD: "total m \<Longrightarrow> \<exists>x s'. m s = (Inr x, s')"
  by (metis total_def prod.collapse)

lemma bind_Inr: "m s = (Inr x, s') \<Longrightarrow> bind m g s = g x s'"
  by (simp add: bind_def)

lemma bind_time_time:
  "bind time_time g s = g (clock s (ticks s)) (s\<lparr>ticks := Suc (ticks s)\<rparr>)"
  by (simp add: bind_def time_time_def)

lemma bind_effect: "bind (effect f) g s = g () (f s)"
  by (simp add: bind_def effect_def)

lemma bind_ret: "bind (ret x) g s = g x s"
  by (simp add: bind_def ret_def)

lemma bind_raise: "bind (raise e) g s = (Inl e, s)"
  by (simp add: bind_def raise_def)

lemma bind_send_command:
  "bind (send_command p c) g s =
     g (rpc_reply s (length (rpc_log s))) (s\<lparr>rpc_log := rpc_log s @ [(p, c)]\<rparr>)"
  by (simp add: bind_def send_command_def)

lemma bind_Inl: "m s = (Inl e, s') \<Longrightarrow> bind m g s = (Inl e, s')"
  by (simp add: bind_def)

lemma keeps_log_session_activity:
  assumes "\<And>s n. f (s\<lparr>db_ops := n\<rparr>) = f s" "\<And>s d. f (s\<lparr>db := d\<rparr>) = f s"
    "\<And>s l. f (s\<lparr>error_log := l\<rparr>) = f s"
  shows "keeps f (log_session_activity sid t)"
  unfolding log_session_activity_def using assms by (rule keeps_store)

lemma keeps_log_session_metric:
  assumes "\<And>s n. f (s\<lparr>db_ops := n\<rparr>) = f s" "\<And>s d. f (s\<lparr>db := d\<rparr>) = f s"
    "\<And>s l. f (s\<lparr>error_log := l\<rparr>) = f s"
  shows "keeps f (log_session_metric sid t mem)"
  unfolding log_session_metric_def using assms by (rule keeps_store)

lemma keeps_log_session_destroyed:
  assumes "\<And>s n. f (s\<lparr>db_ops := n\<rparr>) = f s" "\<And>s d. f (s\<lparr>db := d\<rparr>) = f s"
    "\<And>s l. f (s\<lparr>error_log := l\<rparr>) = f s"
  shows "keeps f (log_session_destroyed sid t reason)"
  unfolding log_session_destroyed_def using assms by (rule keeps_store)

lemma keeps_log_command_execution:
  assumes "\<And>s n. f (s\<lparr>db_ops := n\<rparr>) = f s" "\<And>s d. f (s\<lparr>db := d\<rparr>) = f s"
    "\<And>s l. f (s\<lparr>error_log := l\<rparr>) = f s"
  shows "keeps f (log_command_execution sid ts name succ ms err)"
proof -
  have "f (snd (log_command_execution sid ts name succ ms err s)) = f s" for s
    using keeps_store [of f "''Failed to log command execution''", OF assms]
    by (simp add: log_command_execution_def keeps_def)
  then show ?thesis by (simp add: keeps_def)
qed

lemma total_log_command_execution: "total (log_command_execution sid ts name succ ms err)"
  using total_store [of "''Failed to log command execution''"]
  by (simp add: total_def log_command_execution_def)

lemma total_log_session_activity: "total (log_session_activity sid t)"
  unfolding log_session_activity_def by (rule total_store)

lemma total_log_session_destroyed: "total (log_session_destroyed sid t reason)"
  unfolding log_session_destroyed_def by (rule total_store)

lemma keeps_update_last_activity:
  assumes "\<And>s n. f (s\<lparr>db_ops := n\<rparr>) = f s" "\<And>s d. f (s\<lparr>db := d\<rparr>) = f s"
    "\<And>s l. f (s\<lparr>error_log := l\<rparr>) = f s" "\<And>s n. f (s\<lparr>ticks := n\<rparr>) = f s"
    "\<And>s r. f (s\<lparr>server_registry := r\<rparr>) = f s"
  shows "keeps f (update_last_activity sid)"
proof -
  have k: "keeps f (bind time_time (\<lambda>current_time.
          bind (effect (registry_set sid (info\<lparr>last_activity := current_time\<rparr>))) (\<lambda>_.
          log_session_activity sid current_time)))" for info
    using assms
    by (intro keeps_bind keeps_time_time keeps_effect keeps_log_session_activity)
      (simp_all add: registry_set_def)
  have "f (snd (update_last_activity sid s)) = f s" for s
    using keepsD [OF k] by (simp add: update_last_activity_def ret_def split: option.splits)
  then show ?thesis by (simp add: keeps_def)
qed

lemma total_update_last_activity: "total (update_last_activity sid)"
proof -
  have "\<exists>x. fst (update_last_activity sid s) = Inr x" for s
  proof (cases "map_of (server_registry s) sid")
    case None
    then show ?thesis by (simp add: update_last_activity_def ret_def)
  next
    case (Some info)
    then show ?thesis
      using total_log_session_activity [of sid]
      by (simp add: update_last_activity_def bind_def time_time_def effect_def total_def)
  qed
  then show ?thesis by (simp add: total_def)
qed

lemma keeps_get_current_memory_usage:
  assumes "\<And>s n. f (s\<lparr>db_ops := n\<rparr>) = f s" "\<And>s d. f (s\<lparr>db := d\<rparr>) = f s"
    "\<And>s l. f (s\<lparr>error_log := l\<rparr>) = f s" "\<And>s n. f (s\<lparr>ticks := n\<rparr>) = f s"
    "\<And>s r. f (s\<lparr>server_registry := r\<rparr>) = f s"
  shows "keeps f (get_current_memory_usage sid)"
proof -
  have m: "keeps f (proc_memory_info proc)" for proc
    by (simp add: keeps_def proc_memory_info_def)
  have w: "keeps f (\<lambda>s1. case map_of (server_registry s1) sid of
                None \<Rightarrow> raise (KeyError sid) s1
              | Some cur \<Rightarrow> effect (registry_set sid (cur\<lparr>mem_used := mem\<rparr>)) s1)" for mem
    using assms(5)
    by (simp add: keeps_def raise_def effect_def registry_set_def split: option.splits)
  have h: "keeps f (case e of NoSuchProcess x \<Rightarrow> ret None | _ \<Rightarrow> raise e)"
    for e :: py_error
    by (cases e) (simp_all add: keeps_ret keeps_raise)
  have k: "keeps f (catch
                 (bind (proc_memory_info proc) (\<lambda>bytes.
                  let mem = real bytes / (1024 * 1024) in
                  bind (\<lambda>s1. case map_of (server_registry s1) sid of
                               None \<Rightarrow> raise (KeyError sid) s1
                             | Some cur \<Rightarrow> effect (registry_set sid (cur\<lparr>mem_used := mem\<rparr>)) s1) (\<lambda>_.
                  bind time_time (\<lambda>current_time.
                  bind (update_last_activity sid) (\<lambda>_.
                  bind (log_session_metric sid current_time mem) (\<lambda>_.
                  ret (Some mem)))))))
                 (\<lambda>e. case e of NoSuchProcess _ \<Rightarrow> ret None | _ \<Rightarrow> raise e))" for proc
    unfolding Let_def
    by (intro keeps_catch keeps_bind m w h keeps_time_time keeps_update_last_activity
        keeps_log_session_metric keeps_ret assms)
  have "f (snd (get_current_memory_usage sid s)) = f s" for s
    using keepsD [OF k]
    by (simp add: get_current_memory_usage_def ret_def split: option.splits)
  then show ?thesis by (simp add: keeps_def)
qed

subsection \<open>Routing a command\<close>

lemma live_session_is_launched:
  "launch_phoebe_worker ''a'' (Inr 7) True None None (load_port_config fresh_state) =
     (Inr (session_info.truncate (snd (hd (server_registry live_session)))), live_session)"
  by (simp add: launch_phoebe_worker_def launch_body_def bind_def catch_def ret_def raise_def
      effect_def request_port_def time_time_def load_port_config_def fresh_state_def
      example_config_def live_session_def registry_set_def log_session_created_def
      try_except_log_def transaction_def insert_session_def Let_def upto.simps
      session_info.truncate_def)

text \<open>
  Claim C8. \<^verbatim>\<open>send\<close> for a session id that is not in the registry raises the 404 exception
  and leaves the whole state as it was: no activity update, no call to a worker, no row in
  any table. (For a session that is in the registry, the call to the worker is made on the
  session's port with the request's envelope.)
\<close>

theorem send_unknown_session:
  "(map_of (server_registry s) sid = None \<longrightarrow>
      send sid c s = (Inl (HTTPException 404 ''Invalid session ID''), s)) \<and>
   (map_of (server_registry s) sid = Some info \<longrightarrow>
      rpc_log (snd (send sid c s)) = rpc_log s @ [(port info, c)])"
proof -
  have a: "map_of (server_registry s) sid = None \<Longrightarrow>
      send sid c s = (Inl (HTTPException 404 ''Invalid session ID''), s)"
    by (simp add: send_def get_server_info_def raise_def)
  have b: "rpc_log (snd (send sid c s)) = rpc_log s @ [(port info, c)]"
    if k: "map_of (server_registry s) sid = Some info"
  proof -
    obtain u s1 where u: "update_last_activity sid s = (Inr u, s1)"
      using totalD [OF total_update_last_activity] by blast
    have r1: "rpc_log s1 = rpc_log s"
      using keepsD [OF keeps_update_last_activity [of rpc_log sid], of s] u by simp
    have rest: "rpc_log (snd (bind (log_command_execution sid ts name succ ms err) (\<lambda>_.
          bind (get_current_memory_usage sid) (\<lambda>_. ret response)) s')) = rpc_log s'"
      for ts name succ ms err response s'
      by (intro keepsD keeps_bind keeps_log_command_execution keeps_get_current_memory_usage
          keeps_ret) simp_all
    show ?thesis
      using k r1
      by (simp add: send_def get_server_info_def bind_Inr [of "update_last_activity sid" s u s1, OF u] bind_time_time
          bind_send_command Let_def session_info.truncate_def rest)
  qed
  from a b show ?thesis by blast
qed

theorem send_unknown_session_witness:
  "map_of (server_registry live_session) ''b'' = None \<and>
   send ''b'' \<lparr>command = Some ''get_value'', kwargs = []\<rparr> live_session =
     (Inl (HTTPException 404 ''Invalid session ID''), live_session) \<and>
   map_of (server_registry live_session) ''a'' \<noteq> None \<and>
   rpc_log (snd (send ''a'' \<lparr>command = Some ''get_value'', kwargs = []\<rparr> live_session)) =
     [(8000, \<lparr>command = Some ''get_value'', kwargs = []\<rparr>)]"
proof -
  have n: "map_of (server_registry live_session) ''b'' = None"
    by (simp add: live_session_def fresh_state_def)
  have k: "map_of (server_registry live_session) ''a'' = Some (snd (hd (server_registry live_session)))"
    by (simp add: live_session_def fresh_state_def)
  have p: "port (snd (hd (server_registry live_session))) = 8000" "rpc_log live_session = []"
    by (simp_all add: live_session_def fresh_state_def)
  show ?thesis
    using send_unknown_session [of live_session "''b''" "\<lparr>command = Some ''get_value'', kwargs = []\<rparr>"]
      send_unknown_session [of live_session "''a''" "\<lparr>command = Some ''get_value'', kwargs = []\<rparr>"
        "snd (hd (server_registry live_session))"] n k p
    by simp
qed

subsection \<open>Creating a session\<close>

text \<open>
  Claim C3. When the worker that was spawned fails the readiness probe,
  \<^verbatim>\<open>launch_phoebe_worker\<close> raises (the start-timeout error when the process was there to
  be terminated) and rolls back: the registry and the store are as before, so there is no
  entry for the new id and no \<^verbatim>\<open>created\<close> row; the port taken from the head of the queue is
  back in the queue, once, at its tail, and is not reserved; releasing it again changes
  nothing.
\<close>

theorem launch_rolls_back:
  assumes "available_ports s = p # rest"
  shows "isl (fst (launch_phoebe_worker uuid (Inr proc) False ip agent s)) \<and>
     (alive (os_procs s proc) \<longrightarrow>
        fst (launch_phoebe_worker uuid (Inr proc) False ip agent s) = Inl (WorkerFailedToStart p)) \<and>
     server_registry (snd (launch_phoebe_worker uuid (Inr proc) False ip agent s)) = server_registry s \<and>
     db (snd (launch_phoebe_worker uuid (Inr proc) False ip agent s)) = db s \<and>
     available_ports (snd (launch_phoebe_worker uuid (Inr proc) False ip agent s)) = rest @ [p] \<and>
     p \<notin> reserved_ports (snd (launch_phoebe_worker uuid (Inr proc) False ip agent s)) \<and>
     (map_of (server_registry s) uuid = None \<longrightarrow>
        get_server_info uuid (snd (launch_phoebe_worker uuid (Inr proc) False ip agent s)) = None) \<and>
     release_port p (snd (launch_phoebe_worker uuid (Inr proc) False ip agent s)) =
       snd (launch_phoebe_worker uuid (Inr proc) False ip agent s)"
  using assms
  by (simp add: launch_phoebe_worker_def launch_body_def bind_def catch_def raise_def ret_def
      effect_def request_port_def time_time_def proc_terminate_def proc_wait_timeout_def
      proc_kill_def release_port_def log_error_def emit_def set_alive_def get_server_info_def)

theorem launch_rolls_back_witness:
  "available_ports (load_port_config fresh_state) = 8000 # [8001, 8002] \<and>
   fst (launch_phoebe_worker ''a'' (Inr 7) False None None (load_port_config fresh_state)) =
     Inl (WorkerFailedToStart 8000) \<and>
   server_registry (snd (launch_phoebe_worker ''a'' (Inr 7) False None None (load_port_config fresh_state))) = [] \<and>
   sessions (db (snd (launch_phoebe_worker ''a'' (Inr 7) False None None (load_port_config fresh_state)))) = [] \<and>
   available_ports (snd (launch_phoebe_worker ''a'' (Inr 7) False None None (load_port_config fresh_state))) =
     [8001, 8002, 8000] \<and>
   8000 \<notin> reserved_ports (snd (launch_phoebe_worker ''a'' (Inr 7) False None None (load_port_config fresh_state)))"
proof -
  have a: "available_ports (load_port_config fresh_state) = 8000 # [8001, 8002]"
    by (simp add: load_port_config_def fresh_state_def example_config_def upto.simps)
  have f: "alive (os_procs (load_port_config fresh_state) 7)"
    "server_registry (load_port_config fresh_state) = []"
    "sessions (db (load_port_config fresh_state)) = []"
    by (simp_all add: load_port_config_def fresh_state_def)
  show ?thesis
    using launch_rolls_back [OF a, of "''a''" 7 None None] a f
    by simp
qed

subsection \<open>Ending a session\<close>

lemma terminate_process_result:
  "fst (terminate_process proc s) = Inr () \<and>
   trace (snd (terminate_process proc s)) = trace s @ termination_signals s (Some proc) \<and>
   server_registry (snd (terminate_process proc s)) = server_registry s"
  by (simp add: terminate_process_def catch_def bind_def ret_def raise_def proc_is_running_def
      proc_terminate_def proc_wait_timeout_def proc_kill_def proc_wait_def emit_def
      set_alive_def termination_signals_def)

lemma terminate_step:
  "\<exists>s1. (case process info of None \<Rightarrow> ret () | Some proc \<Rightarrow> terminate_process proc) s = (Inr (), s1) \<and>
     trace s1 = trace s @ termination_signals s (process info) \<and>
     server_registry s1 = server_registry s"
proof (cases "process info")
  case None
  then show ?thesis by (simp add: ret_def termination_signals_def)
next
  case (Some proc)
  then show ?thesis
    using terminate_process_result [of proc s]
    by (cases "terminate_process proc s") simp
qed

lemma log_session_destroyed_step:
  "\<exists>s'. log_session_destroyed sid t reason s = (Inr (), s') \<and> trace s' = trace s \<and>
     server_registry s' = server_registry s"
proof -
  obtain x s' where e: "log_session_destroyed sid t reason s = (Inr x, s')"
    using totalD [OF total_log_session_destroyed] by blast
  have "trace (snd (log_session_destroyed sid t reason s)) = trace s"
    by (intro keepsD keeps_log_session_destroyed) simp_all
  moreover have "server_registry (snd (log_session_destroyed sid t reason s)) = server_registry s"
    by (intro keepsD keeps_log_session_destroyed) simp_all
  ultimately show ?thesis using e by simp
qed

lemma terminate_process_frame:
  "available_ports (snd (terminate_process proc s)) = available_ports s \<and>
   reserved_ports (snd (terminate_process proc s)) = reserved_ports s \<and>
   db (snd (terminate_process proc s)) = db s \<and>
   db_ops (snd (terminate_process proc s)) = db_ops s \<and>
   db_ok (snd (terminate_process proc s)) = db_ok s \<and>
   db_initialised (snd (terminate_process proc s)) = db_initialised s \<and>
   clock (snd (terminate_process proc s)) = clock s \<and>
   ticks (snd (terminate_process proc s)) = ticks s \<and>
   \<not> alive (os_procs (snd (terminate_process proc s)) proc)"
  by (simp add: terminate_process_def catch_def bind_def ret_def raise_def proc_is_running_def
      proc_terminate_def proc_wait_timeout_def proc_kill_def proc_wait_def emit_def
      set_alive_def)

lemma terminate_step_frame:
  assumes "(case process info of None \<Rightarrow> ret () | Some proc \<Rightarrow> terminate_process proc) s = (r, s1)"
  shows "available_ports s1 = available_ports s \<and> reserved_ports s1 = reserved_ports s \<and>
     db s1 = db s \<and> db_ops s1 = db_ops s \<and> db_ok s1 = db_ok s \<and>
     db_initialised s1 = db_initialised s \<and> clock s1 = clock s \<and> ticks s1 = ticks s \<and>
     (\<forall>proc. process info = Some proc \<longrightarrow> \<not> alive (os_procs s1 proc))"
proof (cases "process info")
  case None
  with assms show ?thesis by (simp add: ret_def)
next
  case (Some proc)
  with assms have "s1 = snd (terminate_process proc s)" by simp
  then show ?thesis
    using terminate_process_frame [of proc s] Some by simp
qed

lemma log_session_destroyed_store:
  "(\<not> storage_fails s \<longrightarrow>
      sessions (db (snd (log_session_destroyed sid t reason s))) =
        map (\<lambda>r. if s_session_id r = sid
                 then r\<lparr>s_destroyed_at := Some t, s_termination_reason := Some reason,
                        s_status := ''terminated''\<rparr>
                 else r) (sessions (db s))) \<and>
   (storage_fails s \<longrightarrow> db (snd (log_session_destroyed sid t reason s)) = db s) \<and>
   available_ports (snd (log_session_destroyed sid t reason s)) = available_ports s \<and>
   reserved_ports (snd (log_session_destroyed sid t reason s)) = reserved_ports s \<and>
   os_procs (snd (log_session_destroyed sid t reason s)) = os_procs s"
  by (simp add: log_session_destroyed_def try_except_log_def transaction_def update_sessions_def
      storage_fails_def log_error_def Let_def)

text \<open>
  Claim C2, as amended. \<^verbatim>\<open>shutdown_server\<close> on a session of the registry returns
  \<^verbatim>\<open>True\<close>, and its effects come in this order: the signals to the worker process, the
  release of the port, the \<^verbatim>\<open>destroyed\<close> write, and last the removal of the registry
  entry, after which the id is not in the registry. What each step does: the worker is not
  running afterwards; a port that was reserved is back at the tail of the queue and no
  longer reserved (port 0 and a port that was not reserved are left alone); the row of the
  session is marked \<^verbatim>\<open>terminated\<close> with the time and the reason when the store takes the
  write, and the store is as before when it does not.
\<close>

theorem shutdown_server_order:
  assumes "map_of (server_registry s) sid = Some info"
  shows "fst (shutdown_server sid reason s) = Inr True \<and>
     trace (snd (shutdown_server sid reason s)) =
       trace s @ termination_signals s (process info) @
       (if port info \<noteq> 0 then [EvReleasePort (port info)] else []) @
       [EvLogDestroyed sid reason, EvRemoveEntry sid] \<and>
     map_of (server_registry (snd (shutdown_server sid reason s))) sid = None \<and>
     (\<forall>proc. process info = Some proc \<longrightarrow>
        \<not> alive (os_procs (snd (shutdown_server sid reason s)) proc)) \<and>
     (port info \<noteq> 0 \<and> port info \<in> reserved_ports s \<longrightarrow>
        available_ports (snd (shutdown_server sid reason s)) = available_ports s @ [port info] \<and>
        reserved_ports (snd (shutdown_server sid reason s)) = reserved_ports s - {port info}) \<and>
     (port info = 0 \<or> port info \<notin> reserved_ports s \<longrightarrow>
        available_ports (snd (shutdown_server sid reason s)) = available_ports s \<and>
        reserved_ports (snd (shutdown_server sid reason s)) = reserved_ports s) \<and>
     (\<not> storage_fails s \<longrightarrow>
        sessions (db (snd (shutdown_server sid reason s))) =
          map (\<lambda>r. if s_session_id r = sid
                   then r\<lparr>s_destroyed_at := Some (clock s (ticks s)),
                          s_termination_reason := Some reason, s_status := ''terminated''\<rparr>
                   else r) (sessions (db s))) \<and>
     (storage_fails s \<longrightarrow> db (snd (shutdown_server sid reason s)) = db s)"
proof -
  obtain s1 where t: "(case process info of None \<Rightarrow> ret () | Some proc \<Rightarrow> terminate_process proc) s = (Inr (), s1)"
    and t1: "trace s1 = trace s @ termination_signals s (process info)"
    and g1: "server_registry s1 = server_registry s"
    using terminate_step by blast
  note f1 = terminate_step_frame [OF t]
  define s2 where "s2 = (if port info \<noteq> 0
      then emit (EvReleasePort (port info)) (release_port (port info) s1) else s1)"
  have r: "(if port info \<noteq> 0
        then effect (\<lambda>s1. emit (EvReleasePort (port info)) (release_port (port info) s1))
        else ret ()) s1 = (Inr (), s2)"
    by (simp add: s2_def effect_def ret_def)
  have t2: "trace s2 = trace s1 @ (if port info \<noteq> 0 then [EvReleasePort (port info)] else [])"
    and g2: "server_registry s2 = server_registry s1"
    by (simp_all add: s2_def emit_def release_port_def)
  have f2: "db s2 = db s" "db_ops s2 = db_ops s" "db_ok s2 = db_ok s"
    "db_initialised s2 = db_initialised s" "clock s2 = clock s" "ticks s2 = ticks s"
    "os_procs s2 = os_procs s1"
    using f1 by (simp_all add: s2_def emit_def release_port_def)
  have p2: "port info \<noteq> 0 \<and> port info \<in> reserved_ports s \<longrightarrow>
        available_ports s2 = available_ports s @ [port info] \<and>
        reserved_ports s2 = reserved_ports s - {port info}"
    "port info = 0 \<or> port info \<notin> reserved_ports s \<longrightarrow>
        available_ports s2 = available_ports s \<and> reserved_ports s2 = reserved_ports s"
    using f1 by (simp_all add: s2_def emit_def release_port_def)
  define s3 where "s3 = s2\<lparr>ticks := Suc (ticks s2)\<rparr>"
  have f3: "storage_fails s3 = storage_fails s" "db s3 = db s"
    "available_ports s3 = available_ports s2" "reserved_ports s3 = reserved_ports s2"
    "os_procs s3 = os_procs s1"
    using f2 by (simp_all add: s3_def storage_fails_def)
  obtain s4 where l: "log_session_destroyed sid (clock s2 (ticks s2)) reason s3 = (Inr (), s4)"
    and t4: "trace s4 = trace s3" and g4: "server_registry s4 = server_registry s3"
    using log_session_destroyed_step by blast
  have f4: "\<not> storage_fails s \<longrightarrow>
        sessions (db s4) =
          map (\<lambda>r. if s_session_id r = sid
                   then r\<lparr>s_destroyed_at := Some (clock s (ticks s)),
                          s_termination_reason := Some reason, s_status := ''terminated''\<rparr>
                   else r) (sessions (db s))"
    "storage_fails s \<longrightarrow> db s4 = db s"
    "available_ports s4 = available_ports s2" "reserved_ports s4 = reserved_ports s2"
    "os_procs s4 = os_procs s1"
    using log_session_destroyed_store [of s3 sid "clock s2 (ticks s2)" reason] l f3 f2
    by simp_all
  have b1: "bind (case process info of None \<Rightarrow> ret () | Some proc \<Rightarrow> terminate_process proc) g s = g () s1"
    for g :: "unit \<Rightarrow> bool prog"
    using t by (rule bind_Inr)
  have b2: "bind (if port info \<noteq> 0
        then effect (\<lambda>s1. emit (EvReleasePort (port info)) (release_port (port info) s1))
        else ret ()) g s1 = g () s2"
    for g :: "unit \<Rightarrow> bool prog"
    using r by (rule bind_Inr)
  have b4: "bind (log_session_destroyed sid (clock s2 (ticks s2)) reason) g s3 = g () s4"
    for g :: "unit \<Rightarrow> bool prog"
    using l by (rule bind_Inr)
  have e: "shutdown_server sid reason s =
      (Inr True, emit (EvRemoveEntry sid) (registry_del sid (emit (EvLogDestroyed sid reason) s4)))"
    using assms
    by (simp add: shutdown_server_def b1 b2 bind_time_time s3_def [symmetric] b4
        bind_effect ret_def)
  have order: "trace (emit (EvRemoveEntry sid) (registry_del sid (emit (EvLogDestroyed sid reason) s4))) =
       trace s @ termination_signals s (process info) @
       (if port info \<noteq> 0 then [EvReleasePort (port info)] else []) @
       [EvLogDestroyed sid reason, EvRemoveEntry sid]"
    by (simp add: emit_def registry_del_def t4 s3_def t2 t1)
  have gone: "map_of (server_registry (emit (EvRemoveEntry sid)
      (registry_del sid (emit (EvLogDestroyed sid reason) s4)))) sid = None"
    by (simp add: emit_def registry_del_def delete_conv)
  have rest: "os_procs (emit (EvRemoveEntry sid) (registry_del sid (emit (EvLogDestroyed sid reason) s4))) = os_procs s1"
    "available_ports (emit (EvRemoveEntry sid) (registry_del sid (emit (EvLogDestroyed sid reason) s4))) = available_ports s2"
    "reserved_ports (emit (EvRemoveEntry sid) (registry_del sid (emit (EvLogDestroyed sid reason) s4))) = reserved_ports s2"
    "db (emit (EvRemoveEntry sid) (registry_del sid (emit (EvLogDestroyed sid reason) s4))) = db s4"
    using f4 by (simp_all add: emit_def registry_del_def)
  show ?thesis
    unfolding e fst_conv snd_conv
    using order gone rest f1 p2 f4 by simp
qed

theorem shutdown_server_order_witness:
  "map_of (server_registry live_session) ''a'' \<noteq> None \<and>
   \<not> storage_fails live_session \<and>
   fst (shutdown_server ''a'' ''manual'' live_session) = Inr True \<and>
   trace (snd (shutdown_server ''a'' ''manual'' live_session)) =
     [EvTerminate 7, EvReleasePort 8000, EvLogDestroyed ''a'' ''manual'', EvRemoveEntry ''a''] \<and>
   map_of (server_registry (snd (shutdown_server ''a'' ''manual'' live_session))) ''a'' = None \<and>
   \<not> alive (os_procs (snd (shutdown_server ''a'' ''manual'' live_session)) 7) \<and>
   available_ports (snd (shutdown_server ''a'' ''manual'' live_session)) = [8001, 8002, 8000] \<and>
   reserved_ports (snd (shutdown_server ''a'' ''manual'' live_session)) = {} \<and>
   map s_termination_reason (sessions (db (snd (shutdown_server ''a'' ''manual'' live_session)))) =
     [Some ''manual''] \<and>
   map s_status (sessions (db (snd (shutdown_server ''a'' ''manual'' live_session)))) =
     [''terminated''] \<and>
   map_of (server_registry stray_session) ''a'' \<noteq> None \<and>
   storage_fails stray_session \<and>
   8000 \<notin> reserved_ports stray_session \<and>
   available_ports (snd (shutdown_server ''a'' ''manual'' stray_session)) = [8001, 8002] \<and>
   db (snd (shutdown_server ''a'' ''manual'' stray_session)) = db stray_session"
proof -
  have k: "map_of (server_registry live_session) ''a'' = Some (snd (hd (server_registry live_session)))"
    by (simp add: live_session_def fresh_state_def)
  have p: "port (snd (hd (server_registry live_session))) = 8000"
    "process (snd (hd (server_registry live_session))) = Some 7"
    "trace live_session = []" "alive (os_procs live_session 7)" "graceful (os_procs live_session 7)"
    "available_ports live_session = [8001, 8002]" "reserved_ports live_session = {8000}"
    "\<not> storage_fails live_session"
    "map s_session_id (sessions (db live_session)) = [''a'']"
    "length (sessions (db live_session)) = 1"
    by (simp_all add: live_session_def fresh_state_def storage_fails_def)
  have k': "map_of (server_registry stray_session) ''a'' = Some (snd (hd (server_registry live_session)))"
    by (simp add: stray_session_def live_session_def fresh_state_def)
  have p': "storage_fails stray_session" "reserved_ports stray_session = {}"
    "available_ports stray_session = [8001, 8002]"
    by (simp_all add: stray_session_def live_session_def fresh_state_def storage_fails_def)
  have rows: "sessions (db live_session) =
      [\<lparr>s_session_id = ''a'', s_created_at = 0, s_destroyed_at = None,
        s_last_activity = 0, s_port = 8000, s_client_ip = None,
        s_user_agent = None, s_termination_reason = None, s_status = ''active''\<rparr>]"
    by (simp add: live_session_def fresh_state_def)
  have d: "sessions (db (snd (shutdown_server ''a'' ''manual'' live_session))) =
          map (\<lambda>r. if s_session_id r = ''a''
                   then r\<lparr>s_destroyed_at := Some (clock live_session (ticks live_session)),
                          s_termination_reason := Some ''manual'', s_status := ''terminated''\<rparr>
                   else r) (sessions (db live_session))"
    using shutdown_server_order [OF k, of "''manual''"] p(8) by blast
  have a: "map s_termination_reason (sessions (db (snd (shutdown_server ''a'' ''manual'' live_session)))) =
     [Some ''manual''] \<and>
     map s_status (sessions (db (snd (shutdown_server ''a'' ''manual'' live_session)))) = [''terminated'']"
    unfolding d rows by simp
  have o: "fst (shutdown_server ''a'' ''manual'' live_session) = Inr True \<and>
     trace (snd (shutdown_server ''a'' ''manual'' live_session)) =
       [EvTerminate 7, EvReleasePort 8000, EvLogDestroyed ''a'' ''manual'', EvRemoveEntry ''a''] \<and>
     map_of (server_registry (snd (shutdown_server ''a'' ''manual'' live_session))) ''a'' = None \<and>
     \<not> alive (os_procs (snd (shutdown_server ''a'' ''manual'' live_session)) 7) \<and>
     available_ports (snd (shutdown_server ''a'' ''manual'' live_session)) = [8001, 8002, 8000] \<and>
     reserved_ports (snd (shutdown_server ''a'' ''manual'' live_session)) = {}"
    using shutdown_server_order [OF k, of "''manual''"] p(1-7)
    by (simp add: termination_signals_def)
  have q: "available_ports (snd (shutdown_server ''a'' ''manual'' stray_session)) = [8001, 8002] \<and>
     db (snd (shutdown_server ''a'' ''manual'' stray_session)) = db stray_session"
    using shutdown_server_order [OF k', of "''manual''"] p' by simp
  show ?thesis
    using k k' p(8) p' a o q by simp
qed

text \<open>
  Claim C2 as stated fails: ending the live session \<^verbatim>\<open>"a"\<close>, the removal of the registry
  entry does not come before the signal to the worker; it comes after it.
\<close>

theorem removal_before_termination_counterexample:
  "\<not> precedes (EvRemoveEntry ''a'') (EvTerminate 7)
       (trace (snd (shutdown_server ''a'' ''manual'' live_session))) \<and>
   precedes (EvTerminate 7) (EvRemoveEntry ''a'')
       (trace (snd (shutdown_server ''a'' ''manual'' live_session)))"
proof -
  have k: "map_of (server_registry live_session) ''a'' = Some (snd (hd (server_registry live_session)))"
    by (simp add: live_session_def fresh_state_def)
  have p: "port (snd (hd (server_registry live_session))) = 8000"
    "process (snd (hd (server_registry live_session))) = Some 7"
    "trace live_session = []" "alive (os_procs live_session 7)" "graceful (os_procs live_session 7)"
    by (simp_all add: live_session_def fresh_state_def)
  have "trace (snd (shutdown_server ''a'' ''manual'' live_session)) =
     [EvTerminate 7, EvReleasePort 8000, EvLogDestroyed ''a'' ''manual'', EvRemoveEntry ''a'']"
    using terminate_process_result [of 7 live_session] p k
    by (simp add: live_session_def fresh_state_def shutdown_server_def bind_def ret_def effect_def
        emit_def release_port_def time_time_def log_session_destroyed_def try_except_log_def
        transaction_def update_sessions_def registry_del_def termination_signals_def
        terminate_process_def catch_def raise_def proc_is_running_def
        proc_terminate_def proc_wait_timeout_def proc_kill_def proc_wait_def set_alive_def)
  then show ?thesis
    by (simp add: precedes_def)
qed

subsection \<open>Listing sessions\<close>

text \<open>
  Claim C1, evaluated on the code. With the worker of session \<^verbatim>\<open>"a"\<close> dead,
  \<^verbatim>\<open>list_sessions\<close> ends the session, and the reason passed to the end protocol and written
  to the store is \<^verbatim>\<open>manual\<close>, the default of \<^verbatim>\<open>shutdown_server\<close>.
\<close>

theorem list_sessions_dead_worker_reason:
  "dead_sessions dead_worker = [''a''] \<and>
   fst (list_sessions dead_worker) = Inr [] \<and>
   trace (snd (list_sessions dead_worker)) =
     [EvReleasePort 8000, EvLogDestroyed ''a'' ''manual'', EvRemoveEntry ''a''] \<and>
   map s_termination_reason (sessions (db (snd (list_sessions dead_worker)))) = [Some ''manual''] \<and>
   available_ports (snd (list_sessions dead_worker)) = [8001, 8002, 8000]"
  by (simp add: list_sessions_def dead_sessions_def dead_worker_def live_session_def fresh_state_def
      default_termination_reason_def
      shutdown_server_def bind_def ret_def effect_def
      emit_def release_port_def time_time_def log_session_destroyed_def try_except_log_def
      transaction_def update_sessions_def registry_del_def
      terminate_process_def catch_def raise_def proc_is_running_def get_server_info_def
      proc_terminate_def proc_wait_timeout_def proc_kill_def proc_wait_def set_alive_def)

end
